theory Spec2Isabelle
  imports Main
begin

section \<open>Python dictionaries\<close>

text \<open>
  A Python \<^verbatim>\<open>dict\<close> keeps its keys in insertion order, and the scripts iterate over
  their dictionaries, so a dictionary is an association list with distinct keys:
  \<open>dict_set\<close> is \<^verbatim>\<open>d[k] = v\<close> (a key already present keeps its position),
  \<open>map_of d k\<close> is \<^verbatim>\<open>d.get(k)\<close> and \<open>map fst d\<close> is \<^verbatim>\<open>d.keys()\<close>.
\<close>

fun dict_set :: "'k \<Rightarrow> 'v \<Rightarrow> ('k \<times> 'v) list \<Rightarrow> ('k \<times> 'v) list" where
  "dict_set k v [] = [(k, v)]"
| "dict_set k v ((k', v') # d) =
     (if k = k' then (k, v) # d else (k', v') # dict_set k v d)"

section \<open>The engagement-plan builder of \<^verbatim>\<open>create_or_update_contact\<close> (im-update1.py)\<close>

text \<open>
  One entry of \<^verbatim>\<open>details["channels"]\<close>. The key \<^verbatim>\<open>engagement_time_minutes\<close> is read
  with \<^verbatim>\<open>.get(..., 0)\<close>, so it may be absent.
\<close>

record channel_config =
  channel_type :: string
  address :: string
  engagement_time_minutes :: "int option"

text \<open>One entry of the local list \<^verbatim>\<open>channel_info\<close> (keys arn, engagement_time, type).\<close>

record channel_info =
  ci_arn :: string
  ci_engagement_time :: int
  ci_type :: string

text \<open>\<^verbatim>\<open>{"ChannelTargetInfo": {"ContactChannelId": ..., "RetryIntervalInMinutes": 2}}\<close>\<close>

record target =
  ContactChannelId :: string
  RetryIntervalInMinutes :: int

record stage =
  DurationInMinutes :: int
  Targets :: "target list"

text \<open>
  Lines 262-270: the channels of the configuration whose type has a channel reference,
  in configuration order.
\<close>

fun channel_info_of :: "channel_config list \<Rightarrow> (string \<times> string) list \<Rightarrow> channel_info list" where
  "channel_info_of [] arns = []"
| "channel_info_of (cc # ccs) arns =
     (case map_of arns (channel_type cc) of
        Some a \<Rightarrow>
          \<lparr>ci_arn = a,
           ci_engagement_time = (case engagement_time_minutes cc of None \<Rightarrow> 0 | Some t \<Rightarrow> t),
           ci_type = channel_type cc\<rparr> # channel_info_of ccs arns
      | None \<Rightarrow> channel_info_of ccs arns)"

text \<open>
  Lines 273-278: one step of the grouping loop. The lookup after the insertion cannot
  miss (lemma \<open>add_to_group_lookup\<close> below); the \<open>None\<close> branch is there for totality.
\<close>

definition add_to_group ::
  "(int \<times> channel_info list) list \<Rightarrow> channel_info \<Rightarrow> (int \<times> channel_info list) list" where
  "add_to_group groups c =
     (let t = ci_engagement_time c;
          g1 = (if t \<notin> fst ` set groups then dict_set t [] groups else groups)
      in case map_of g1 t of
           Some cs \<Rightarrow> dict_set t (cs @ [c]) g1
         | None \<Rightarrow> g1)"

definition engagement_groups :: "channel_info list \<Rightarrow> (int \<times> channel_info list) list" where
  "engagement_groups info = foldl add_to_group [] info"

text \<open>Line 281: \<^verbatim>\<open>sorted(engagement_groups.keys())\<close>.\<close>

definition sorted_engagement_times :: "channel_info list \<Rightarrow> int list" where
  "sorted_engagement_times info = sort (map fst (engagement_groups info))"

text \<open>Lines 286-292: the initial wait stage, present when the first time is positive.\<close>

definition initial_wait_stage :: "int list \<Rightarrow> stage list" where
  "initial_wait_stage ts =
     (case ts of
        [] \<Rightarrow> []
      | t0 # _ \<Rightarrow> if t0 > 0 then [\<lparr>DurationInMinutes = t0, Targets = []\<rparr>] else [])"

definition target_of :: "channel_info \<Rightarrow> target" where
  "target_of c = \<lparr>ContactChannelId = ci_arn c, RetryIntervalInMinutes = 2\<rparr>"

text \<open>
  \<^verbatim>\<open>engagement_groups[engagement_time]\<close> at line 307. The time comes from the keys of
  the same dictionary, so the lookup cannot raise (lemma \<open>groups_lookup\<close>).
\<close>

definition channels_at_this_time ::
  "(int \<times> channel_info list) list \<Rightarrow> int \<Rightarrow> channel_info list" where
  "channels_at_this_time groups t = (case map_of groups t of Some cs \<Rightarrow> cs | None \<Rightarrow> [])"

text \<open>Lines 295-321: the stage built at index \<open>i\<close> of the loop over the sorted times.\<close>

definition stage_at :: "(int \<times> channel_info list) list \<Rightarrow> int list \<Rightarrow> nat \<Rightarrow> stage" where
  "stage_at groups ts i =
     (let engagement_time = ts ! i;
          duration = (if i + 1 < length ts then ts ! (i + 1) - engagement_time else 1)
      in \<lparr>DurationInMinutes = duration,
          Targets = map target_of (channels_at_this_time groups engagement_time)\<rparr>)"

definition build_plan_stages :: "channel_info list \<Rightarrow> stage list" where
  "build_plan_stages info =
     (let groups = engagement_groups info;
          ts = sorted_engagement_times info
      in initial_wait_stage ts @ map (stage_at groups ts) [0..<length ts])"

section \<open>Exceptions, the remote service and the process state\<close>

text \<open>
  Both scripts talk to the remote service through boto3 clients. A remote error reported
  by the service is a botocore \<^verbatim>\<open>ClientError\<close>; it carries its error code
  (\<^verbatim>\<open>e.response['Error']['Code']\<close>) and its text (\<^verbatim>\<open>str(e)\<close>). The scripts catch
  \<^verbatim>\<open>ClientError\<close> in the helper methods and \<^verbatim>\<open>Exception\<close> in \<^verbatim>\<open>main\<close>, so any other
  exception (a connection failure, a \<^verbatim>\<open>TypeError\<close>, ...) is kept apart; it carries its text.
\<close>

datatype exn =
    ClientError string string
  | OtherException string

definition exn_text :: "exn \<Rightarrow> string" where
  "exn_text e = (case e of ClientError code text \<Rightarrow> text | OtherException text \<Rightarrow> text)"

text \<open>
  The requests the scripts send, with the arguments they pass. \<^verbatim>\<open>create_contact\<close> is
  always sent with \<^verbatim>\<open>Type="PERSONAL"\<close> and \<^verbatim>\<open>Plan={"Stages": []}\<close>, and
  \<^verbatim>\<open>create_contact_channel\<close> with \<^verbatim>\<open>DeliveryAddress={"SimpleAddress": address}\<close>.
\<close>

datatype request =
    GetCallerIdentity
  | GetContact string
  | CreateContact string string
  | ListContactChannels string
  | CreateContactChannel string string string string
  | UpdateContact string "stage list"
  | GetResponsePlan string
  | UpdateResponsePlan string "string list"
  | ListResponsePlans
  | DeleteContactChannel string
  | DeleteContact string

text \<open>What the process does to the outside, in order: requests sent and \<^verbatim>\<open>time.sleep\<close>.\<close>

datatype event = Call request | Sleep int

text \<open>The requests that change remote state.\<close>

fun mutating :: "event \<Rightarrow> bool" where
  "mutating (Call (CreateContact alias display_name)) = True"
| "mutating (Call (CreateContactChannel contact_arn nm ty addr)) = True"
| "mutating (Call (UpdateContact contact_arn stages)) = True"
| "mutating (Call (UpdateResponsePlan plan_arn engagements)) = True"
| "mutating (Call (DeleteContactChannel channel_arn)) = True"
| "mutating (Call (DeleteContact contact_arn)) = True"
| "mutating e = False"

text \<open>The fields of the responses that the scripts read.\<close>

record contact_response =
  DisplayName :: "string option"
  ContactType :: "string option"

record contact_channel =
  ContactChannelArn :: string
  ChannelName :: string
  ChannelType :: string

record plan_summary =
  summary_arn :: string
  summary_name :: string

text \<open>
  The remote service and the rest of the environment. Every answer may depend on all that
  the process has done so far (the events), so the service may fail at any request, change
  its answers after a mutation, and answer a retried request differently. The answers are
  well-formed: a successful response has the fields the script reads.

  \<^item> \<open>clients_error\<close>: the exception raised when the three boto3 clients are created, if any;
  \<^item> \<open>session_region\<close>: \<^verbatim>\<open>boto3.Session().region_name\<close>;
  \<^item> \<open>ssm_incidents_list_response_plans\<close>: the outcomes of the page requests of the
    paginator, in order (finitely many pages; the pages after a failed one are never
    requested);
  \<^item> \<open>ssm_incidents_get_response_plan\<close>: the \<^verbatim>\<open>engagements\<close> of the plan, \<open>[]\<close> when absent;
  \<^item> \<open>stdin\<close>: what \<^verbatim>\<open>input()\<close> returns or raises.
\<close>

record remote =
  clients_error :: "exn option"
  session_region :: "string option"
  sts_get_caller_identity :: "event list \<Rightarrow> exn + string"
  ssm_contacts_get_contact :: "event list \<Rightarrow> string \<Rightarrow> exn + contact_response"
  ssm_contacts_create_contact :: "event list \<Rightarrow> string \<Rightarrow> string \<Rightarrow> exn + string"
  ssm_contacts_list_contact_channels :: "event list \<Rightarrow> string \<Rightarrow> exn + contact_channel list"
  ssm_contacts_create_contact_channel ::
    "event list \<Rightarrow> string \<Rightarrow> string \<Rightarrow> string \<Rightarrow> string \<Rightarrow> exn + string"
  ssm_contacts_update_contact :: "event list \<Rightarrow> string \<Rightarrow> stage list \<Rightarrow> exn + unit"
  ssm_contacts_delete_contact_channel :: "event list \<Rightarrow> string \<Rightarrow> exn + unit"
  ssm_contacts_delete_contact :: "event list \<Rightarrow> string \<Rightarrow> exn + unit"
  ssm_incidents_get_response_plan :: "event list \<Rightarrow> string \<Rightarrow> exn + string list"
  ssm_incidents_update_response_plan :: "event list \<Rightarrow> string \<Rightarrow> string list \<Rightarrow> exn + unit"
  ssm_incidents_list_response_plans :: "event list \<Rightarrow> (exn + plan_summary list) list"
  stdin :: "exn + string"

text \<open>
  The console: \<open>Log l m\<close> is a line printed by \<^verbatim>\<open>helper.log(m, l)\<close> (the level's prefix
  symbol, a space, the message), \<open>Print s\<close> a line printed by \<^verbatim>\<open>print(s)\<close>. The bullet
  and cross symbols of the printed text are written \<open>*\<close> and \<open>x\<close>.
\<close>

datatype level = INFO | WARN | ERROR | DEBUG

datatype line = Log level string | Print string

text \<open>
  The state of a run: the events so far, the console so far, and the helper's cached
  account identifier (\<^verbatim>\<open>self.account_id\<close>).
\<close>

record world =
  events :: "event list"
  console :: "line list"
  account_id :: "string option"

text \<open>The fields of the helper object that never change after \<^verbatim>\<open>__init__\<close>.\<close>

record helper =
  dry_run :: bool
  verbose :: bool
  region :: "string option"

text \<open>
  A statement or call: it runs from a state, returns a value or raises, and leaves a
  state. What was sent and printed before an exception stays sent and printed.
\<close>

type_synonym 'a prog = "world \<Rightarrow> (exn + 'a) \<times> world"

definition return :: "'a \<Rightarrow> 'a prog" where
  "return x = (\<lambda>w. (Inr x, w))"

definition raise :: "exn \<Rightarrow> 'a prog" where
  "raise e = (\<lambda>w. (Inl e, w))"

definition bind :: "'a prog \<Rightarrow> ('a \<Rightarrow> 'b prog) \<Rightarrow> 'b prog" where
  "bind m f = (\<lambda>w. case m w of (Inl e, w') \<Rightarrow> (Inl e, w') | (Inr x, w') \<Rightarrow> f x w')"

text \<open>\<^verbatim>\<open>try: m except Exception as e: handler e\<close>\<close>

definition try_except :: "'a prog \<Rightarrow> (exn \<Rightarrow> 'a prog) \<Rightarrow> 'a prog" where
  "try_except m handler =
     (\<lambda>w. case m w of (Inl e, w') \<Rightarrow> handler e w' | (Inr x, w') \<Rightarrow> (Inr x, w'))"

text \<open>\<^verbatim>\<open>try: m except ClientError as e: handler code e\<close>; other exceptions pass through.\<close>

definition except_ClientError :: "'a prog \<Rightarrow> (string \<Rightarrow> exn \<Rightarrow> 'a prog) \<Rightarrow> 'a prog" where
  "except_ClientError m handler =
     try_except m
       (\<lambda>e. case e of ClientError code text \<Rightarrow> handler code e | OtherException text \<Rightarrow> raise e)"

text \<open>A \<^verbatim>\<open>for\<close> loop whose body updates local variables \<open>s\<close>.\<close>

fun for_loop :: "'a list \<Rightarrow> ('a \<Rightarrow> 's \<Rightarrow> 's prog) \<Rightarrow> 's \<Rightarrow> 's prog" where
  "for_loop [] body s = return s"
| "for_loop (x # xs) body s = bind (body x s) (for_loop xs body)"

text \<open>
  A \<^verbatim>\<open>for\<close> loop inside a \<^verbatim>\<open>try\<close> whose handler still reads the local variables: the
  loop stops at the first exception and hands it over with the variables as they are.
\<close>

type_synonym 's partial = "world \<Rightarrow> (exn option \<times> 's) \<times> world"

fun for_loop_keep :: "'a list \<Rightarrow> ('a \<Rightarrow> 's \<Rightarrow> 's partial) \<Rightarrow> 's \<Rightarrow> 's partial" where
  "for_loop_keep [] body s w = ((None, s), w)"
| "for_loop_keep (x # xs) body s w =
     (case body x s w of
        ((Some e, s'), w') \<Rightarrow> ((Some e, s'), w')
      | ((None, s'), w') \<Rightarrow> for_loop_keep xs body s' w')"

text \<open>Sending a request: the answer depends on the events before it.\<close>

definition remote_call :: "request \<Rightarrow> (event list \<Rightarrow> exn + 'a) \<Rightarrow> 'a prog" where
  "remote_call req respond = (\<lambda>w. (respond (events w), w\<lparr>events := events w @ [Call req]\<rparr>))"

text \<open>The methods of the three boto3 clients that the scripts call.\<close>

definition sts_client_get_caller_identity :: "remote \<Rightarrow> string prog" where
  "sts_client_get_caller_identity R = remote_call GetCallerIdentity (sts_get_caller_identity R)"

definition contacts_client_get_contact :: "remote \<Rightarrow> string \<Rightarrow> contact_response prog" where
  "contacts_client_get_contact R contact_arn =
     remote_call (GetContact contact_arn) (\<lambda>hist. ssm_contacts_get_contact R hist contact_arn)"

definition contacts_client_create_contact :: "remote \<Rightarrow> string \<Rightarrow> string \<Rightarrow> string prog" where
  "contacts_client_create_contact R alias display_name =
     remote_call (CreateContact alias display_name)
       (\<lambda>hist. ssm_contacts_create_contact R hist alias display_name)"

definition contacts_client_list_contact_channels ::
  "remote \<Rightarrow> string \<Rightarrow> contact_channel list prog" where
  "contacts_client_list_contact_channels R contact_arn =
     remote_call (ListContactChannels contact_arn)
       (\<lambda>hist. ssm_contacts_list_contact_channels R hist contact_arn)"

definition contacts_client_create_contact_channel ::
  "remote \<Rightarrow> string \<Rightarrow> string \<Rightarrow> string \<Rightarrow> string \<Rightarrow> string prog" where
  "contacts_client_create_contact_channel R contact_arn nm ty addr =
     remote_call (CreateContactChannel contact_arn nm ty addr)
       (\<lambda>hist. ssm_contacts_create_contact_channel R hist contact_arn nm ty addr)"

definition contacts_client_update_contact :: "remote \<Rightarrow> string \<Rightarrow> stage list \<Rightarrow> unit prog" where
  "contacts_client_update_contact R contact_arn stages =
     remote_call (UpdateContact contact_arn stages)
       (\<lambda>hist. ssm_contacts_update_contact R hist contact_arn stages)"

definition contacts_client_delete_contact_channel :: "remote \<Rightarrow> string \<Rightarrow> unit prog" where
  "contacts_client_delete_contact_channel R channel_arn =
     remote_call (DeleteContactChannel channel_arn)
       (\<lambda>hist. ssm_contacts_delete_contact_channel R hist channel_arn)"

definition contacts_client_delete_contact :: "remote \<Rightarrow> string \<Rightarrow> unit prog" where
  "contacts_client_delete_contact R contact_arn =
     remote_call (DeleteContact contact_arn)
       (\<lambda>hist. ssm_contacts_delete_contact R hist contact_arn)"

definition incidents_client_get_response_plan :: "remote \<Rightarrow> string \<Rightarrow> string list prog" where
  "incidents_client_get_response_plan R plan_arn =
     remote_call (GetResponsePlan plan_arn)
       (\<lambda>hist. ssm_incidents_get_response_plan R hist plan_arn)"

definition incidents_client_update_response_plan ::
  "remote \<Rightarrow> string \<Rightarrow> string list \<Rightarrow> unit prog" where
  "incidents_client_update_response_plan R plan_arn engagements =
     remote_call (UpdateResponsePlan plan_arn engagements)
       (\<lambda>hist. ssm_incidents_update_response_plan R hist plan_arn engagements)"

text \<open>\<^verbatim>\<open>time.sleep(secs)\<close>; a negative argument raises \<^verbatim>\<open>ValueError\<close>.\<close>

definition sleep :: "int \<Rightarrow> unit prog" where
  "sleep secs =
     (\<lambda>w. if secs < 0 then (Inl (OtherException ''sleep length must be non-negative''), w)
          else (Inr (), w\<lparr>events := events w @ [Sleep secs]\<rparr>))"

definition print :: "string \<Rightarrow> unit prog" where
  "print s = (\<lambda>w. (Inr (), w\<lparr>console := console w @ [Print s]\<rparr>))"

text \<open>Decimal text of a number, as an f-string prints it.\<close>

fun str_nat :: "nat \<Rightarrow> string" where
  "str_nat n =
     (if n < 10 then [''0123456789'' ! n] else str_nat (n div 10) @ [''0123456789'' ! (n mod 10)])"

definition str_int :: "int \<Rightarrow> string" where
  "str_int i = (if i < 0 then CHR ''-'' # str_nat (nat (- i)) else str_nat (nat i))"

text \<open>\<^verbatim>\<open>sep.join(xs)\<close>\<close>

fun join :: "string \<Rightarrow> string list \<Rightarrow> string" where
  "join sep [] = []"
| "join sep [x] = x"
| "join sep (x # y # ys) = x @ sep @ join sep (y # ys)"

section \<open>What the two helper classes share\<close>

text \<open>\<^verbatim>\<open>log\<close>, \<^verbatim>\<open>get_account_id\<close> and \<^verbatim>\<open>get_contact_arn\<close> are the same in both scripts.\<close>

definition log :: "helper \<Rightarrow> string \<Rightarrow> level \<Rightarrow> unit prog" where
  "log h message lvl =
     (\<lambda>w. if \<not> verbose h \<and> lvl = DEBUG then (Inr (), w)
          else (Inr (), w\<lparr>console := console w @ [Log lvl message]\<rparr>))"

definition get_account_id :: "remote \<Rightarrow> string prog" where
  "get_account_id R =
     (\<lambda>w. case account_id w of
            None \<Rightarrow>
              bind (sts_client_get_caller_identity R)
                (\<lambda>account w'. (Inr account, w'\<lparr>account_id := Some account\<rparr>)) w
          | Some account \<Rightarrow> (Inr account, w))"

text \<open>\<^verbatim>\<open>self.region or boto3.Session().region_name or 'us-east-1'\<close>: an empty string is falsy.\<close>

definition region_or_default :: "remote \<Rightarrow> helper \<Rightarrow> string" where
  "region_or_default R h =
     (let session_or_default =
            (case session_region R of
               Some r \<Rightarrow> if r \<noteq> [] then r else ''us-east-1''
             | None \<Rightarrow> ''us-east-1'')
      in case region h of
           Some r \<Rightarrow> if r \<noteq> [] then r else session_or_default
         | None \<Rightarrow> session_or_default)"

definition get_contact_arn :: "remote \<Rightarrow> helper \<Rightarrow> string \<Rightarrow> string prog" where
  "get_contact_arn R h alias =
     bind (get_account_id R)
       (\<lambda>account. return (''arn:aws:ssm-contacts:'' @ region_or_default R h @ '':'' @ account @
                            '':contact/'' @ alias))"

section \<open>im-update1.py: configuration\<close>

text \<open>An entry of \<^verbatim>\<open>CONTACTS_DEFINITION\<close> and an entry of \<^verbatim>\<open>RESPONSE_PLANS_TO_UPDATE\<close>.\<close>

record contact_details =
  name :: string
  channels :: "channel_config list"

record plan_details =
  contacts_to_engage :: "string list"

text \<open>The dictionary \<^verbatim>\<open>CONFIG\<close> of im-update1.py.\<close>

record config =
  cfg_dry_run :: bool
  retry_attempts :: int
  retry_delay :: int
  aws_region :: "string option"
  cfg_verbose :: bool

definition CONFIG :: config where
  "CONFIG = \<lparr>cfg_dry_run = False, retry_attempts = 3, retry_delay = 2,
             aws_region = None, cfg_verbose = True\<rparr>"

definition channel :: "string \<Rightarrow> string \<Rightarrow> int \<Rightarrow> channel_config" where
  "channel ty addr minutes =
     \<lparr>channel_type = ty, address = addr, engagement_time_minutes = Some minutes\<rparr>"

definition CONTACTS_DEFINITION :: "(string \<times> contact_details) list" where
  "CONTACTS_DEFINITION =
     [(''lmhung'', \<lparr>name = ''L M Hung'', channels =
         [channel ''EMAIL'' ''lmhung@vinamilk.com.vn'' 15, channel ''SMS'' ''+84984001202'' 15]\<rparr>),
      (''dnkhanh'', \<lparr>name = ''D N Khanh'', channels =
         [channel ''EMAIL'' ''dnkhanh@vinamilk.com.vn'' 15, channel ''SMS'' ''+84329097001'' 15]\<rparr>),
      (''ntquy'', \<lparr>name = ''N T Quy'', channels =
         [channel ''EMAIL'' ''ntquy@vinamilk.com.vn'' 15, channel ''SMS'' ''+84934198680'' 15]\<rparr>),
      (''dvcong'', \<lparr>name = ''D V Cong'', channels =
         [channel ''EMAIL'' ''dvcong@vinamilk.com.vn'' 10, channel ''SMS'' ''+84344353188'' 15]\<rparr>)]"

definition RESPONSE_PLANS_TO_UPDATE :: "(string \<times> plan_details) list" where
  "RESPONSE_PLANS_TO_UPDATE =
     [(''vnm-data-prod-aws-health-crictical-response'',
         \<lparr>contacts_to_engage = [''lmhung'', ''dnkhanh'']\<rparr>),
      (''vnm-data-prod-aws-health-high-response'',
         \<lparr>contacts_to_engage = [''lmhung'', ''ntquy'', ''dvcong'']\<rparr>)]"

section \<open>im-update1.py: class \<^verbatim>\<open>AWSIncidentManagerHelper\<close>\<close>

text \<open>
  \<^verbatim>\<open>retry_operation\<close>, lines 126-135. The loop runs over \<^verbatim>\<open>range(retry_attempts)\<close>; when
  the range is empty the function falls off its end and returns \<^verbatim>\<open>None\<close>.
\<close>

fun retry_loop :: "config \<Rightarrow> helper \<Rightarrow> 'a prog \<Rightarrow> int list \<Rightarrow> 'a option prog" where
  "retry_loop cfg h operation [] = return None"
| "retry_loop cfg h operation (attempt # rest) =
     try_except (bind operation (\<lambda>r. return (Some r)))
       (\<lambda>e. case e of
              ClientError code text \<Rightarrow>
                if attempt = retry_attempts cfg - 1 then raise e
                else bind (log h (''Attempt '' @ str_int (attempt + 1) @ '' failed, retrying in '' @
                                  str_int (retry_delay cfg) @ ''s: '' @ exn_text e) WARN)
                       (\<lambda>_. bind (sleep (retry_delay cfg))
                         (\<lambda>_. retry_loop cfg h operation rest))
            | OtherException text \<Rightarrow> raise e)"

definition retry_operation :: "config \<Rightarrow> helper \<Rightarrow> 'a prog \<Rightarrow> 'a option prog" where
  "retry_operation cfg h operation = retry_loop cfg h operation [0..retry_attempts cfg - 1]"

text \<open>\<^verbatim>\<open>contact_exists\<close>, lines 137-152.\<close>

definition contact_exists :: "remote \<Rightarrow> helper \<Rightarrow> string \<Rightarrow> (bool \<times> string) prog" where
  "contact_exists R h alias =
     bind (get_contact_arn R h alias)
       (\<lambda>contact_arn.
          if dry_run h
          then bind (log h (''[DRY RUN] Would check if contact exists: '' @ alias) DEBUG)
                 (\<lambda>_. return (False, contact_arn))
          else except_ClientError
                 (bind (contacts_client_get_contact R contact_arn)
                    (\<lambda>response. return (True, contact_arn)))
                 (\<lambda>code e. if code = ''ResourceNotFoundException''
                            then return (False, contact_arn) else raise e))"

text \<open>
  \<^verbatim>\<open>get_existing_contact_channels\<close>, lines 154-164. The dictionary comprehension keeps,
  for a type listed twice, the reference of the later channel.
\<close>

definition channels_by_type :: "contact_channel list \<Rightarrow> (string \<times> string) list" where
  "channels_by_type chans =
     foldl (\<lambda>d ch. dict_set (ChannelType ch) (ContactChannelArn ch) d) [] chans"

definition get_existing_contact_channels ::
  "remote \<Rightarrow> helper \<Rightarrow> string \<Rightarrow> (string \<times> string) list prog" where
  "get_existing_contact_channels R h contact_arn =
     (if dry_run h
      then bind (log h (''[DRY RUN] Would list contact channels for '' @ contact_arn) DEBUG)
             (\<lambda>_. return [])
      else except_ClientError
             (bind (contacts_client_list_contact_channels R contact_arn)
                (\<lambda>response. return (channels_by_type response)))
             (\<lambda>code e. return []))"

text \<open>
  \<^verbatim>\<open>create_contact_channel\<close>, lines 166-193. \<^verbatim>\<open>response["ContactChannelArn"]\<close> raises
  \<^verbatim>\<open>TypeError\<close> when \<^verbatim>\<open>retry_operation\<close> returned \<^verbatim>\<open>None\<close>.
\<close>

definition create_contact_channel ::
  "config \<Rightarrow> remote \<Rightarrow> helper \<Rightarrow> string \<Rightarrow> channel_config \<Rightarrow> string \<Rightarrow> string option prog" where
  "create_contact_channel cfg R h contact_arn channel_config contact_name =
     (let ty = channel_type channel_config;
          channel_address = address channel_config
      in if dry_run h
         then bind (log h (''[DRY RUN] Would create '' @ ty @ '' channel for '' @ contact_name @
                           '': '' @ channel_address) DEBUG)
                (\<lambda>_. return None)
         else except_ClientError
                (bind (retry_operation cfg h
                         (contacts_client_create_contact_channel R contact_arn
                            (contact_name @ '' - '' @ ty) ty channel_address))
                   (\<lambda>response.
                      bind (log h (''Created '' @ ty @ '' channel for '' @ contact_name) INFO)
                        (\<lambda>_. case response of
                                None \<Rightarrow> raise (OtherException
                                  ''TypeError: 'NoneType' object is not subscriptable'')
                              | Some channel_arn \<Rightarrow> return (Some channel_arn))))
                (\<lambda>code e.
                   if code = ''ConflictException''
                   then bind (log h (ty @ '' channel already exists for '' @ contact_name) INFO)
                          (\<lambda>_. bind (get_existing_contact_channels R h contact_arn)
                            (\<lambda>existing_channels. return (map_of existing_channels ty)))
                   else bind (log h (''Error creating '' @ ty @ '' channel for '' @ contact_name @
                                     '': '' @ exn_text e) ERROR)
                          (\<lambda>_. raise e)))"

text \<open>\<^verbatim>\<open>if channel_arn: channel_arns_by_type[channel_type] = channel_arn\<close>\<close>

definition store_channel_arn ::
  "string \<Rightarrow> string option \<Rightarrow> (string \<times> string) list \<Rightarrow> (string \<times> string) list" where
  "store_channel_arn ty channel_arn channel_arns_by_type =
     (case channel_arn of
        Some a \<Rightarrow> if a \<noteq> [] then dict_set ty a channel_arns_by_type else channel_arns_by_type
      | None \<Rightarrow> channel_arns_by_type)"

text \<open>
  Lines 234-236 and 241-243 of \<^verbatim>\<open>create_or_update_contact\<close>, the same in both branches:
  create the channel and, if a reference came back, store it under the channel's type.
\<close>

definition create_and_store ::
  "config \<Rightarrow> remote \<Rightarrow> helper \<Rightarrow> string \<Rightarrow> contact_details \<Rightarrow> channel_config \<Rightarrow>
     (string \<times> string) list \<Rightarrow> (string \<times> string) list prog" where
  "create_and_store cfg R h contact_arn details channel_config channel_arns_by_type =
     bind (create_contact_channel cfg R h contact_arn channel_config (name details))
       (\<lambda>channel_arn. return (store_channel_arn (channel_type channel_config) channel_arn
                                channel_arns_by_type))"

text \<open>Step 2 of \<^verbatim>\<open>create_or_update_contact\<close>, lines 220-243: the channel references by type.\<close>

definition collect_channel_arns ::
  "config \<Rightarrow> remote \<Rightarrow> helper \<Rightarrow> string \<Rightarrow> contact_details \<Rightarrow> bool \<Rightarrow> string \<Rightarrow>
     (string \<times> string) list prog" where
  "collect_channel_arns cfg R h alias details existing_contact contact_arn =
     (if existing_contact
      then bind (get_existing_contact_channels R h contact_arn)
             (\<lambda>existing_channels.
                for_loop (channels details)
                  (\<lambda>channel_config channel_arns_by_type.
                     case map_of existing_channels (channel_type channel_config) of
                       Some a \<Rightarrow>
                         bind (log h (''Using existing '' @ channel_type channel_config @
                                      '' channel for '' @ alias) INFO)
                           (\<lambda>_. return (dict_set (channel_type channel_config) a
                                          channel_arns_by_type))
                     | None \<Rightarrow>
                         create_and_store cfg R h contact_arn details channel_config
                           channel_arns_by_type)
                  [])
      else for_loop (channels details) (create_and_store cfg R h contact_arn details) [])"

text \<open>The DEBUG lines of step 3, lines 247-329, in the order they are logged.\<close>

definition quoted :: "string \<Rightarrow> string" where
  "quoted s = [CHR 0x27] @ s @ [CHR 0x27]"

text \<open>\<^verbatim>\<open>f"{ch_config}"\<close>: the text of the dictionary.\<close>

definition repr_channel_config :: "channel_config \<Rightarrow> string" where
  "repr_channel_config cc =
     ''{'' @ quoted ''type'' @ '': '' @ quoted (channel_type cc) @ '', '' @
     quoted ''address'' @ '': '' @ quoted (address cc) @
     (case engagement_time_minutes cc of
        None \<Rightarrow> []
      | Some t \<Rightarrow> '', '' @ quoted ''engagement_time_minutes'' @ '': '' @ str_int t) @ ''}''"

definition raw_configuration_lines :: "string \<Rightarrow> channel_config list \<Rightarrow> string list" where
  "raw_configuration_lines alias ccs =
     (''Raw channel configuration from CONTACTS_DEFINITION for '' @ alias @ '':'') #
     concat (map (\<lambda>(i, ch_config).
        [''  - Channel '' @ str_nat i @ '': '' @ channel_type ch_config @
           '': engagement_time_minutes = '' @
           (case engagement_time_minutes ch_config of None \<Rightarrow> ''NOT_SET'' | Some t \<Rightarrow> str_int t),
         ''    Full config: '' @ repr_channel_config ch_config]) (enumerate 0 ccs))"

definition arn_mapping_lines :: "string \<Rightarrow> (string \<times> string) list \<Rightarrow> string list" where
  "arn_mapping_lines alias channel_arns_by_type =
     (''Channel ARN mapping for '' @ alias @ '':'') #
     map (\<lambda>(ch_type, arn). ''  - '' @ ch_type @ '': '' @ arn) channel_arns_by_type"

definition stage_lines :: "string \<Rightarrow> channel_info list \<Rightarrow> string list" where
  "stage_lines alias info =
     (let groups = engagement_groups info;
          ts = sorted_engagement_times info;
          initial = initial_wait_stage ts
      in (''Generating corrected engagement plan for '' @ alias @ '':'') #
         map (\<lambda>s. ''  - Stage 1: Initial wait of '' @ str_int (DurationInMinutes s) @
                   '' min (no engagement).'') initial @
         map (\<lambda>i. ''  - Stage '' @ str_nat (length initial + i + 1) @ '': Engages '' @
                   join '', '' (map ci_type (channels_at_this_time groups (ts ! i))) @
                   '' at T='' @ str_int (ts ! i) @ ''min. Waits '' @
                   str_int (DurationInMinutes (stage_at groups ts i)) @
                   '' min before next stage.'') [0..<length ts])"

definition final_plan_lines :: "string \<Rightarrow> stage list \<Rightarrow> string list" where
  "final_plan_lines alias plan_stages =
     (''Final engagement plan for '' @ alias @ '' ('' @ str_nat (length plan_stages) @
        '' stages):'') #
     map (\<lambda>(i, s). ''  Stage '' @ str_nat (i + 1) @ '': DurationInMinutes='' @
                    str_int (DurationInMinutes s) @ '', Targets='' @
                    str_nat (length (Targets s))) (enumerate 0 plan_stages)"

text \<open>
  Lines 340-345, logged after a successful plan update: the loop pairs the sorted times
  with the stages from the first stage on, the initial wait stage included.
\<close>

fun engagement_lines ::
  "(int \<times> channel_info list) list \<Rightarrow> nat \<Rightarrow> int \<Rightarrow> (int \<times> stage) list \<Rightarrow> string list" where
  "engagement_lines groups i cumulative_time [] = []"
| "engagement_lines groups i cumulative_time ((engagement_time, s) # rest) =
     (''  Stage '' @ str_nat (i + 1) @ '': '' @
        join '', '' (map ci_type (channels_at_this_time groups engagement_time)) @
        '' - Wait '' @ str_int (DurationInMinutes s) @ '' min, engage at '' @
        str_int (cumulative_time + DurationInMinutes s) @ '' min total'') #
     engagement_lines groups (i + 1) (cumulative_time + DurationInMinutes s) rest"

definition log_all :: "helper \<Rightarrow> string list \<Rightarrow> level \<Rightarrow> unit prog" where
  "log_all h messages lvl = for_loop messages (\<lambda>message u. log h message lvl) ()"

text \<open>Step 3 of \<^verbatim>\<open>create_or_update_contact\<close>, lines 245-351: the plan and its update.\<close>

definition update_contact_plan ::
  "config \<Rightarrow> remote \<Rightarrow> helper \<Rightarrow> string \<Rightarrow> contact_details \<Rightarrow> string \<Rightarrow>
     (string \<times> string) list \<Rightarrow> unit prog" where
  "update_contact_plan cfg R h alias details contact_arn channel_arns_by_type =
     (if channel_arns_by_type \<noteq> []
      then
        (let info = channel_info_of (channels details) channel_arns_by_type;
             plan_stages = build_plan_stages info
         in bind (log_all h (raw_configuration_lines alias (channels details) @
                             arn_mapping_lines alias channel_arns_by_type @
                             stage_lines alias info @
                             final_plan_lines alias plan_stages) DEBUG)
              (\<lambda>_. except_ClientError
                      (bind (retry_operation cfg h
                               (contacts_client_update_contact R contact_arn plan_stages))
                         (\<lambda>_. bind (log h (''Updated contact plan for '' @ alias @ '' with '' @
                                           str_nat (length plan_stages) @
                                           '' engagement stage(s)'') INFO)
                           (\<lambda>_. log_all h
                                  (engagement_lines (engagement_groups info) 0 0
                                     (zip (sorted_engagement_times info) plan_stages)) DEBUG)))
                      (\<lambda>code e. log h (''Warning: Could not update contact plan for '' @ alias @
                                        '': '' @ exn_text e) WARN)))
      else log h (''No channels available for '' @ alias @
                  '', contact created without plan'') WARN)"

text \<open>
  \<^verbatim>\<open>create_or_update_contact\<close>, lines 195-357. \<^verbatim>\<open>response["ContactArn"]\<close> raises
  \<^verbatim>\<open>TypeError\<close> when \<^verbatim>\<open>retry_operation\<close> returned \<^verbatim>\<open>None\<close>.
\<close>

definition create_or_update_contact ::
  "config \<Rightarrow> remote \<Rightarrow> helper \<Rightarrow> string \<Rightarrow> contact_details \<Rightarrow> string prog" where
  "create_or_update_contact cfg R h alias details =
     except_ClientError
       (if dry_run h
        then bind (get_contact_arn R h alias)
               (\<lambda>contact_arn.
                  bind (log h (''[DRY RUN] Would create/update contact: '' @ alias) DEBUG)
                    (\<lambda>_. return contact_arn))
        else bind (contact_exists R h alias)
               (\<lambda>(existing_contact, arn0).
                  bind (if existing_contact
                        then bind (log h (''Contact already exists: '' @ alias) INFO)
                               (\<lambda>_. return arn0)
                        else bind (retry_operation cfg h
                                     (contacts_client_create_contact R alias (name details)))
                               (\<lambda>response.
                                  case response of
                                    None \<Rightarrow> raise (OtherException
                                      ''TypeError: 'NoneType' object is not subscriptable'')
                                  | Some created_arn \<Rightarrow>
                                      bind (log h (''Created contact: '' @ alias) INFO)
                                        (\<lambda>_. return created_arn)))
                    (\<lambda>contact_arn.
                       bind (collect_channel_arns cfg R h alias details existing_contact
                               contact_arn)
                         (\<lambda>channel_arns_by_type.
                            bind (update_contact_plan cfg R h alias details contact_arn
                                    channel_arns_by_type)
                              (\<lambda>_. return contact_arn)))))
       (\<lambda>code e. bind (log h (''Error creating/updating contact '' @ alias @ '': '' @
                              exn_text e) ERROR)
                   (\<lambda>_. raise e))"

text \<open>\<^verbatim>\<open>get_response_plan_arn\<close>, lines 359-361.\<close>

definition get_response_plan_arn :: "remote \<Rightarrow> string \<Rightarrow> string prog" where
  "get_response_plan_arn R plan_name =
     bind (get_account_id R)
       (\<lambda>account. return (''arn:aws:ssm-incidents::'' @ account @ '':response-plan/'' @
                            plan_name))"

text \<open>\<^verbatim>\<open>update_response_plan\<close>, lines 363-405.\<close>

definition update_response_plan ::
  "config \<Rightarrow> remote \<Rightarrow> helper \<Rightarrow> string \<Rightarrow> plan_details \<Rightarrow> (string \<times> string) list \<Rightarrow>
     unit prog" where
  "update_response_plan cfg R h plan_name details contact_arns =
     except_ClientError
       (bind (for_loop (contacts_to_engage details)
                (\<lambda>contact_alias engagements.
                   case map_of contact_arns contact_alias of
                     Some arn \<Rightarrow> return (engagements @ [arn])
                   | None \<Rightarrow>
                       bind (log h (''Contact alias '' @ quoted contact_alias @
                                    '' not found in created contacts'') WARN)
                         (\<lambda>_. return engagements))
                [])
          (\<lambda>engagements.
             if engagements = []
             then log h (''No valid contacts found for response plan '' @ plan_name) WARN
             else bind (get_response_plan_arn R plan_name)
                    (\<lambda>plan_arn.
                       if dry_run h
                       then log h (''[DRY RUN] Would update response plan: '' @ plan_name @
                                   '' with '' @ str_nat (length engagements) @ '' contacts'') DEBUG
                       else bind (except_ClientError
                                    (bind (incidents_client_get_response_plan R plan_arn)
                                       (\<lambda>current_plan.
                                          bind (log h (''Found existing response plan: '' @
                                                       plan_name) DEBUG)
                                            (\<lambda>_. return True)))
                                    (\<lambda>code e.
                                       if code = ''ResourceNotFoundException''
                                       then bind (log h (''Response plan not found: '' @
                                                         plan_name) ERROR)
                                              (\<lambda>_. return False)
                                       else raise e))
                              (\<lambda>found.
                                 if \<not> found then return ()
                                 else bind (retry_operation cfg h
                                              (incidents_client_update_response_plan R plan_arn engagements))
                                        (\<lambda>_. log h (''Updated response plan: '' @ plan_name @
                                                     '' with '' @ str_nat (length engagements) @
                                                     '' contact(s)'') INFO)))))
       (\<lambda>code e. bind (log h (''Error updating response plan '' @ plan_name @ '': '' @
                              exn_text e) ERROR)
                   (\<lambda>_. raise e))"

text \<open>
  \<^verbatim>\<open>validate_configuration\<close>, lines 407-457: the first violation found, in the order of
  the checks, is logged and the method returns \<^verbatim>\<open>False\<close>. A missing \<^verbatim>\<open>name\<close>, \<^verbatim>\<open>type\<close>
  or \<^verbatim>\<open>address\<close> is the empty string here (both are falsy).
\<close>

fun first_error :: "('a \<Rightarrow> string option) \<Rightarrow> 'a list \<Rightarrow> string option" where
  "first_error check [] = None"
| "first_error check (x # xs) =
     (case check x of Some message \<Rightarrow> Some message | None \<Rightarrow> first_error check xs)"

definition channel_error :: "string \<Rightarrow> channel_config \<Rightarrow> string option" where
  "channel_error alias ch =
     (let engagement_time = (case engagement_time_minutes ch of None \<Rightarrow> 0 | Some t \<Rightarrow> t)
      in if channel_type ch = [] \<or> channel_type ch \<notin> set [''EMAIL'', ''SMS'', ''VOICE'']
         then Some (''Contact '' @ alias @ '' has invalid channel type: '' @ channel_type ch)
         else if address ch = []
         then Some (''Contact '' @ alias @ '' has channel without address'')
         else if engagement_time < 0
         then Some (''Contact '' @ alias @ '' has invalid engagement_time_minutes: '' @
                    str_int engagement_time)
         else None)"

definition contact_error :: "string \<times> contact_details \<Rightarrow> string option" where
  "contact_error entry =
     (case entry of (alias, details) \<Rightarrow>
        if alias = [] then Some (''Invalid contact alias: '' @ alias)
        else if name details = [] then Some (''Contact '' @ alias @ '' missing name'')
        else if channels details = []
        then Some (''Contact '' @ alias @ '' missing or invalid channels'')
        else first_error (channel_error alias) (channels details))"

definition plan_error ::
  "(string \<times> contact_details) list \<Rightarrow> string \<times> plan_details \<Rightarrow> string option" where
  "plan_error defs entry =
     (case entry of (plan_name, details) \<Rightarrow>
        if plan_name = [] then Some ''Empty response plan name found''
        else if contacts_to_engage details = []
        then Some (''Response plan '' @ plan_name @ '' has no contacts to engage'')
        else first_error
               (\<lambda>contact_alias.
                  if contact_alias \<notin> fst ` set defs
                  then Some (''Response plan '' @ plan_name @
                             '' references undefined contact: '' @ contact_alias)
                  else None)
               (contacts_to_engage details))"

definition validate_configuration ::
  "helper \<Rightarrow> (string \<times> contact_details) list \<Rightarrow> (string \<times> plan_details) list \<Rightarrow> bool prog" where
  "validate_configuration h defs plans =
     bind (log h ''Validating configuration...'' DEBUG)
       (\<lambda>_. case first_error contact_error defs of
               Some message \<Rightarrow> bind (log h message ERROR) (\<lambda>_. return False)
             | None \<Rightarrow>
                 (case first_error (plan_error defs) plans of
                    Some message \<Rightarrow> bind (log h message ERROR) (\<lambda>_. return False)
                  | None \<Rightarrow>
                      bind (log h ''Configuration validation passed'' INFO)
                        (\<lambda>_. return True)))"

text \<open>\<^verbatim>\<open>print_summary\<close> of im-update1.py, lines 459-479.\<close>

definition rule_line :: string where
  "rule_line = replicate 60 (CHR ''='')"

definition newline :: string where
  "newline = [CHR 0x0A]"

definition str_bool :: "bool \<Rightarrow> string" where
  "str_bool b = (if b then ''True'' else ''False'')"

definition region_text :: "helper \<Rightarrow> string" where
  "region_text h = (case region h of Some r \<Rightarrow> if r \<noteq> [] then r else ''default'' | None \<Rightarrow> ''default'')"

definition print_all :: "string list \<Rightarrow> unit prog" where
  "print_all ls = for_loop ls (\<lambda>l u. print l) ()"

definition print_summary_update ::
  "config \<Rightarrow> remote \<Rightarrow> helper \<Rightarrow> (string \<times> contact_details) list \<Rightarrow>
     (string \<times> plan_details) list \<Rightarrow> (string \<times> string) list \<Rightarrow> unit prog" where
  "print_summary_update cfg R h defs plans contact_arns =
     bind (print_all [newline @ rule_line, ''EXECUTION SUMMARY'', rule_line,
                      ''Contacts processed: '' @ str_nat (length contact_arns)])
       (\<lambda>_. bind (for_loop contact_arns
                    (\<lambda>(alias, arn) u.
                       case map_of defs alias of
                         None \<Rightarrow> raise (OtherException (''KeyError: '' @ quoted alias))
                       | Some contact_details \<Rightarrow>
                           print_all
                             ['' * '' @ alias @ '' ('' @ name contact_details @ '') - '' @
                                str_nat (length (channels contact_details)) @ '' channel(s)'',
                              ''   Engagement times: ['' @
                                join '', ''
                                  (map (\<lambda>ch. str_int (case engagement_time_minutes ch of
                                                         None \<Rightarrow> 0 | Some t \<Rightarrow> t))
                                     (channels contact_details)) @ ''] minutes''])
                    ())
         (\<lambda>_. bind (print_all
                      ((newline @ ''Response plans to update: '' @ str_nat (length plans)) #
                       map (\<lambda>(plan_name, details).
                              '' * '' @ plan_name @ '' - '' @
                              str_nat (length (contacts_to_engage details)) @ '' contact(s)'')
                         plans @
                       [newline @ ''Configuration:'',
                        '' * Dry run: '' @ str_bool (cfg_dry_run cfg),
                        '' * AWS Region: '' @ region_text h]))
           (\<lambda>_. bind (get_account_id R)
             (\<lambda>account. print_all ['' * AWS Account: '' @ account, rule_line]))))"

section \<open>im-update1.py: \<^verbatim>\<open>main\<close> and the script\<close>

text \<open>
  The helper object of \<^verbatim>\<open>main\<close> and the bodies of its two loops. The body of the loop
  over the contacts (lines 515-522)
  updates the local variables \<^verbatim>\<open>contact_arns\<close> and \<^verbatim>\<open>success\<close>; \<^verbatim>\<open>if contact_arn:\<close>
  holds for a non-empty string. The body of the loop over the response plans (lines
  529-534) updates \<^verbatim>\<open>success\<close>.
\<close>

definition new_helper :: "bool \<Rightarrow> bool \<Rightarrow> string option \<Rightarrow> helper" where
  "new_helper dry verb reg = \<lparr>dry_run = dry, verbose = verb, region = reg\<rparr>"

text \<open>\<^verbatim>\<open>self.account_id = None\<close> in \<^verbatim>\<open>__init__\<close>.\<close>

definition clear_account_id :: "unit prog" where
  "clear_account_id = (\<lambda>w. (Inr (), w\<lparr>account_id := None\<rparr>))"

definition process_contact ::
  "config \<Rightarrow> remote \<Rightarrow> helper \<Rightarrow> string \<times> contact_details \<Rightarrow>
     (string \<times> string) list \<times> bool \<Rightarrow> ((string \<times> string) list \<times> bool) prog" where
  "process_contact cfg R h entry vars =
     (case (entry, vars) of ((alias, details), (contact_arns, success)) \<Rightarrow>
        try_except
          (bind (create_or_update_contact cfg R h alias details)
             (\<lambda>contact_arn.
                return (if contact_arn \<noteq> [] then dict_set alias contact_arn contact_arns
                        else contact_arns, success)))
          (\<lambda>e. bind (log h (''Failed to process contact '' @ alias @ '': '' @ exn_text e) ERROR)
                 (\<lambda>_. return (contact_arns, False))))"

definition process_contact_definitions ::
  "config \<Rightarrow> remote \<Rightarrow> helper \<Rightarrow> (string \<times> contact_details) list \<Rightarrow>
     ((string \<times> string) list \<times> bool) prog" where
  "process_contact_definitions cfg R h defs = for_loop defs (process_contact cfg R h) ([], True)"

definition process_response_plan ::
  "config \<Rightarrow> remote \<Rightarrow> helper \<Rightarrow> (string \<times> string) list \<Rightarrow> string \<times> plan_details \<Rightarrow>
     bool \<Rightarrow> bool prog" where
  "process_response_plan cfg R h contact_arns entry success =
     (case entry of (plan_name, details) \<Rightarrow>
        try_except
          (bind (update_response_plan cfg R h plan_name details contact_arns)
             (\<lambda>_. return success))
          (\<lambda>e. bind (log h (''Failed to update response plan '' @ plan_name @ '': '' @
                            exn_text e) ERROR)
                 (\<lambda>_. return False)))"

definition process_response_plans ::
  "config \<Rightarrow> remote \<Rightarrow> helper \<Rightarrow> (string \<times> plan_details) list \<Rightarrow> (string \<times> string) list \<Rightarrow>
     bool \<Rightarrow> bool prog" where
  "process_response_plans cfg R h plans contact_arns success0 =
     for_loop plans (process_response_plan cfg R h contact_arns) success0"

text \<open>Lines 506-543 of \<^verbatim>\<open>main\<close>: what follows the validation.\<close>

definition process_configuration ::
  "config \<Rightarrow> remote \<Rightarrow> helper \<Rightarrow> (string \<times> contact_details) list \<Rightarrow>
     (string \<times> plan_details) list \<Rightarrow> bool prog" where
  "process_configuration cfg R h defs plans =
     bind (if cfg_dry_run cfg
           then log h ''Running in DRY RUN mode - no changes will be made'' WARN
           else return ())
       (\<lambda>_. bind (log h (newline @ ''--- [1/2] Processing Contact Definitions ---'') INFO)
         (\<lambda>_. bind (process_contact_definitions cfg R h defs)
           (\<lambda>(contact_arns, success1).
              bind (log h ''--- Contact Definitions Processed ---'' INFO)
                (\<lambda>_. bind (log h (newline @
                                  ''--- [2/2] Processing Response Plan Updates ---'') INFO)
                  (\<lambda>_. bind (process_response_plans cfg R h plans contact_arns success1)
                    (\<lambda>success.
                       bind (log h ''--- Response Plan Updates Processed ---'' INFO)
                         (\<lambda>_. bind (print_summary_update cfg R h defs plans contact_arns)
                           (\<lambda>_. bind (log h (newline @ ''Script execution '' @
                                              (if success then ''completed successfully''
                                               else ''completed with errors'') @ ''.'') INFO)
                             (\<lambda>_. return success)))))))))"

text \<open>Lines 485-504 of \<^verbatim>\<open>main\<close>, then the rest.\<close>

definition main_update ::
  "config \<Rightarrow> remote \<Rightarrow> (string \<times> contact_details) list \<Rightarrow> (string \<times> plan_details) list \<Rightarrow>
     bool prog" where
  "main_update cfg R defs plans =
     bind (print ''Starting AWS Incident Manager Configuration Script...'')
       (\<lambda>_. case clients_error R of
               Some e \<Rightarrow>
                 bind (print (''x Error initializing AWS clients: '' @ exn_text e))
                   (\<lambda>_. return False)
             | None \<Rightarrow>
                 (let h = new_helper (cfg_dry_run cfg) (cfg_verbose cfg) (aws_region cfg)
                  in bind clear_account_id
                       (\<lambda>_. bind (log h ''AWS clients initialized'' INFO)
                         (\<lambda>_. bind (validate_configuration h defs plans)
                           (\<lambda>valid.
                              if \<not> valid
                              then bind (log h ''Configuration validation failed. Exiting.'' ERROR)
                                     (\<lambda>_. return False)
                              else process_configuration cfg R h defs plans)))))"

text \<open>
  Lines 545-546: \<^verbatim>\<open>if __name__ == "__main__": main()\<close>. The value \<^verbatim>\<open>main\<close> returns is
  not used: the exit status of the process is 0 when \<^verbatim>\<open>main\<close> returns and 1 when an
  exception leaves it.
\<close>

definition script_update ::
  "config \<Rightarrow> remote \<Rightarrow> (string \<times> contact_details) list \<Rightarrow> (string \<times> plan_details) list \<Rightarrow>
     world \<Rightarrow> int \<times> world" where
  "script_update cfg R defs plans w =
     (case main_update cfg R defs plans w of
        (Inr success, w') \<Rightarrow> (0, w')
      | (Inl e, w') \<Rightarrow> (1, w'))"

section \<open>im-delete-contacts.py: configuration\<close>

text \<open>The dictionary \<^verbatim>\<open>CONFIG\<close> and the list \<^verbatim>\<open>CONTACTS_TO_DELETE\<close> of the script.\<close>

record delete_config =
  del_dry_run :: bool
  require_confirmation :: bool
  remove_from_response_plans :: bool
  del_aws_region :: "string option"
  del_verbose :: bool

definition DELETE_CONFIG :: delete_config where
  "DELETE_CONFIG = \<lparr>del_dry_run = False, require_confirmation = False,
                    remove_from_response_plans = True, del_aws_region = None,
                    del_verbose = True\<rparr>"

definition CONTACTS_TO_DELETE :: "string list" where
  "CONTACTS_TO_DELETE = [''asdasd'']"

section \<open>im-delete-contacts.py: class \<^verbatim>\<open>AWSContactDeletionHelper\<close>\<close>

text \<open>The dictionaries returned by \<^verbatim>\<open>get_contact_details\<close> and \<^verbatim>\<open>get_contact_channels\<close>.\<close>

record contact_info =
  info_arn :: string
  info_alias :: string
  info_name :: string
  info_type :: string

record channel_entry =
  entry_arn :: string
  entry_name :: string
  entry_type :: string

text \<open>\<^verbatim>\<open>get_contact_details\<close>, lines 80-95. The reference is built outside the \<^verbatim>\<open>try\<close>.\<close>

definition get_contact_details :: "remote \<Rightarrow> helper \<Rightarrow> string \<Rightarrow> contact_info option prog" where
  "get_contact_details R h alias =
     bind (get_contact_arn R h alias)
       (\<lambda>contact_arn.
          except_ClientError
            (bind (contacts_client_get_contact R contact_arn)
               (\<lambda>response.
                  return (Some \<lparr>info_arn = contact_arn, info_alias = alias,
                                info_name = (case DisplayName response of
                                               None \<Rightarrow> alias | Some n \<Rightarrow> n),
                                info_type = (case ContactType response of
                                               None \<Rightarrow> ''PERSONAL'' | Some t \<Rightarrow> t)\<rparr>)))
            (\<lambda>code e. if code = ''ResourceNotFoundException'' then return None else raise e))"

text \<open>\<^verbatim>\<open>get_contact_channels\<close>, lines 97-110.\<close>

definition get_contact_channels :: "remote \<Rightarrow> string \<Rightarrow> channel_entry list prog" where
  "get_contact_channels R contact_arn =
     except_ClientError
       (bind (contacts_client_list_contact_channels R contact_arn)
          (\<lambda>response.
             return (map (\<lambda>ch. \<lparr>entry_arn = ContactChannelArn ch, entry_name = ChannelName ch,
                                  entry_type = ChannelType ch\<rparr>) response)))
       (\<lambda>code e. return [])"

text \<open>
  \<^verbatim>\<open>get_response_plans_using_contact\<close>, lines 112-130. Each page of the paginator is
  one request; within a page every plan is fetched. A \<^verbatim>\<open>ClientError\<close> anywhere ends the
  search with the names found so far.
\<close>

definition plans_of_page ::
  "remote \<Rightarrow> string \<Rightarrow> exn + plan_summary list \<Rightarrow> string list \<Rightarrow> string list partial" where
  "plans_of_page R contact_arn page response_plans w =
     (let w1 = w\<lparr>events := events w @ [Call ListResponsePlans]\<rparr>
      in case page of
           Inl e \<Rightarrow> ((Some e, response_plans), w1)
         | Inr summaries \<Rightarrow>
             for_loop_keep summaries
               (\<lambda>plan_summary found w2.
                  case incidents_client_get_response_plan R (summary_arn plan_summary)
                         w2 of
                    (Inl e, w3) \<Rightarrow> ((Some e, found), w3)
                  | (Inr engagements, w3) \<Rightarrow>
                      ((None, if contact_arn \<in> set engagements
                              then found @ [summary_name plan_summary] else found), w3))
               response_plans w1)"

definition get_response_plans_using_contact ::
  "remote \<Rightarrow> helper \<Rightarrow> string \<Rightarrow> string list prog" where
  "get_response_plans_using_contact R h contact_arn =
     (\<lambda>w. case for_loop_keep (ssm_incidents_list_response_plans R (events w))
                 (plans_of_page R contact_arn) [] w of
            ((None, response_plans), w') \<Rightarrow> (Inr response_plans, w')
          | ((Some e, response_plans), w') \<Rightarrow>
              (case e of
                 ClientError code text \<Rightarrow>
                   bind (log h (''Error listing response plans: '' @ exn_text e) ERROR)
                     (\<lambda>_. return response_plans) w'
               | OtherException text \<Rightarrow> (Inl e, w')))"

text \<open>\<^verbatim>\<open>remove_contact_from_response_plan\<close>, lines 132-159.\<close>

definition remove_contact_from_response_plan ::
  "remote \<Rightarrow> helper \<Rightarrow> string \<Rightarrow> string \<Rightarrow> unit prog" where
  "remove_contact_from_response_plan R h plan_name contact_arn =
     (if dry_run h
      then log h (''[DRY RUN] Would remove contact from response plan: '' @ plan_name) DEBUG
      else except_ClientError
             (bind (get_account_id R)
                (\<lambda>account.
                   let plan_arn = ''arn:aws:ssm-incidents::'' @ account @ '':response-plan/'' @
                                  plan_name
                   in bind (incidents_client_get_response_plan R plan_arn)
                        (\<lambda>current_engagements.
                           let new_engagements =
                                 filter (\<lambda>eng. eng \<noteq> contact_arn) current_engagements
                           in if length new_engagements < length current_engagements
                              then bind (incidents_client_update_response_plan R plan_arn new_engagements)
                                     (\<lambda>_. log h (''Removed contact from response plan: '' @
                                                  plan_name) INFO)
                              else log h (''Contact not found in response plan: '' @ plan_name)
                                     WARN)))
             (\<lambda>code e. log h (''Error updating response plan '' @ plan_name @ '': '' @
                               exn_text e) ERROR))"

text \<open>\<^verbatim>\<open>delete_contact_channel\<close>, lines 161-171.\<close>

definition delete_contact_channel ::
  "remote \<Rightarrow> helper \<Rightarrow> string \<Rightarrow> channel_entry \<Rightarrow> unit prog" where
  "delete_contact_channel R h channel_arn channel_info =
     (if dry_run h
      then log h (''[DRY RUN] Would delete '' @ entry_type channel_info @ '' channel: '' @
                  entry_name channel_info) DEBUG
      else except_ClientError
             (bind (contacts_client_delete_contact_channel R channel_arn)
                (\<lambda>_. log h (''Deleted '' @ entry_type channel_info @ '' channel: '' @
                             entry_name channel_info) INFO))
             (\<lambda>code e. log h (''Error deleting channel '' @ entry_name channel_info @ '': '' @
                               exn_text e) ERROR))"

text \<open>\<^verbatim>\<open>delete_contact\<close>, lines 173-218.\<close>

definition delete_contact :: "delete_config \<Rightarrow> remote \<Rightarrow> helper \<Rightarrow> string \<Rightarrow> bool prog" where
  "delete_contact cfg R h alias =
     bind (get_contact_details R h alias)
       (\<lambda>contact_info.
          case contact_info of
            None \<Rightarrow> bind (log h (''Contact not found: '' @ alias) WARN) (\<lambda>_. return False)
          | Some info \<Rightarrow>
              bind (log h (newline @ ''Processing contact: '' @ alias @ '' ('' @ info_name info @
                           '')'') INFO)
                (\<lambda>_. bind (get_contact_channels R (info_arn info))
                  (\<lambda>chans.
                     bind (if chans \<noteq> []
                           then bind (log h (''Found '' @ str_nat (length chans) @
                                             '' channel(s) for '' @ alias @ '':'') INFO)
                                  (\<lambda>_. log_all h
                                         (map (\<lambda>ch. ''  - '' @ entry_type ch @ '': '' @ entry_name ch)
                                            chans) DEBUG)
                           else return ())
                       (\<lambda>_. bind (if remove_from_response_plans cfg
                                  then bind (get_response_plans_using_contact R h (info_arn info))
                                         (\<lambda>response_plans.
                                            if response_plans \<noteq> []
                                            then bind (log h (''Contact is used in '' @
                                                         str_nat (length response_plans) @
                                                         '' response plan(s):'') INFO)
                                                   (\<lambda>_. bind (log_all h
                                                                (map (\<lambda>plan. ''  - '' @ plan)
                                                                   response_plans) DEBUG)
                                                     (\<lambda>_. for_loop response_plans
                                                            (\<lambda>plan u.
                                                               remove_contact_from_response_plan R h
                                                                 plan (info_arn info))
                                                            ()))
                                            else return ())
                                  else return ())
                         (\<lambda>_. bind (for_loop chans
                                      (\<lambda>ch u. delete_contact_channel R h (entry_arn ch) ch) ())
                           (\<lambda>_. if dry_run h
                                 then bind (log h (''[DRY RUN] Would delete contact: '' @ alias)
                                              DEBUG)
                                        (\<lambda>_. return True)
                                 else except_ClientError
                                        (bind (contacts_client_delete_contact R (info_arn info))
                                           (\<lambda>_. bind (log h (''Deleted contact: '' @ alias) INFO)
                                             (\<lambda>_. return True)))
                                        (\<lambda>code e.
                                           bind (log h (''Error deleting contact '' @ alias @
                                                        '': '' @ exn_text e) ERROR)
                                             (\<lambda>_. return False))))))))"

text \<open>\<^verbatim>\<open>print_summary\<close> of im-delete-contacts.py, lines 220-252.\<close>

definition failed_aliases :: "(string \<times> bool) list \<Rightarrow> string list" where
  "failed_aliases contacts_processed = map fst (filter (\<lambda>(alias, success). \<not> success) contacts_processed)"

definition print_summary_delete ::
  "remote \<Rightarrow> helper \<Rightarrow> (string \<times> bool) list \<Rightarrow> unit prog" where
  "print_summary_delete R h contacts_processed =
     (let successful = length (filter (\<lambda>(alias, success). success) contacts_processed);
          failed = length contacts_processed - successful
      in bind (print_all
                 ([newline @ rule_line,
                   if dry_run h then ''DRY RUN SUMMARY'' else ''DELETION SUMMARY'',
                   rule_line,
                   ''Total contacts processed: '' @ str_nat (length contacts_processed),
                   ''  * '' @ (if dry_run h then ''Would delete'' else ''Deleted'') @ '': '' @
                     str_nat successful,
                   ''  * Failed: '' @ str_nat failed] @
                  (if failed > 0
                   then (newline @ ''Failed deletions:'') #
                        map (\<lambda>alias. ''  * '' @ alias) (failed_aliases contacts_processed)
                   else []) @
                  [newline @ ''Configuration:'',
                   ''  * Mode: '' @ (if dry_run h then ''DRY RUN'' else ''LIVE DELETION''),
                   ''  * AWS Region: '' @ region_text h]))
           (\<lambda>_. bind (get_account_id R)
             (\<lambda>account.
                print_all
                  ([''  * AWS Account: '' @ account] @
                   (if dry_run h \<and> successful > 0
                    then [newline @ ''To perform actual deletion:'',
                          ''  1. Set CONFIG['dry_run'] = False'',
                          ''  2. Run the script again'']
                    else []) @
                   [rule_line]))))"

section \<open>im-delete-contacts.py: \<^verbatim>\<open>confirm_deletion\<close>, \<^verbatim>\<open>main\<close> and the script\<close>

text \<open>\<^verbatim>\<open>confirm_deletion\<close>, lines 258-275; the prompt of \<^verbatim>\<open>input\<close> is printed.\<close>

definition confirm_deletion :: "delete_config \<Rightarrow> remote \<Rightarrow> string list \<Rightarrow> bool prog" where
  "confirm_deletion cfg R contacts =
     bind (print_all
             ([newline @ replicate 60 (CHR ''!''),
               ''WARNING: You are about to delete the following contacts:'',
               replicate 60 (CHR ''!'')] @
              map (\<lambda>contact. ''  * '' @ contact) contacts @
              [newline @ ''Total contacts to delete: '' @ str_nat (length contacts)]))
       (\<lambda>_. if del_dry_run cfg
             then bind (print (newline @ ''[DRY RUN MODE] No actual deletions will be performed.''))
                    (\<lambda>_. return True)
             else bind (print (newline @ ''This action cannot be undone!''))
                    (\<lambda>_. bind (print (newline @ ''Type 'DELETE' to confirm deletion: ''))
                      (\<lambda>_. case stdin R of
                              Inl e \<Rightarrow> raise e
                            | Inr response \<Rightarrow> return (response = ''DELETE''))))"

text \<open>
  The loop of \<^verbatim>\<open>main\<close>, lines 318-324, and its body: \<^verbatim>\<open>contacts_processed\<close> is a
  dictionary, so an alias listed twice keeps one entry, with the outcome of its last
  processing.
\<close>

definition record_deletion ::
  "delete_config \<Rightarrow> remote \<Rightarrow> helper \<Rightarrow> string \<Rightarrow> (string \<times> bool) list \<Rightarrow>
     (string \<times> bool) list prog" where
  "record_deletion cfg R h alias contacts_processed =
     try_except
       (bind (delete_contact cfg R h alias)
          (\<lambda>success. return (dict_set alias success contacts_processed)))
       (\<lambda>e. bind (log h (''Failed to process contact '' @ alias @ '': '' @ exn_text e) ERROR)
              (\<lambda>_. return (dict_set alias False contacts_processed)))"

definition process_deletions ::
  "delete_config \<Rightarrow> remote \<Rightarrow> helper \<Rightarrow> string list \<Rightarrow> (string \<times> bool) list prog" where
  "process_deletions cfg R h contacts = for_loop contacts (record_deletion cfg R h) []"

text \<open>Lines 314-329 of \<^verbatim>\<open>main\<close>: the deletions, the summary and the returned value.\<close>

definition run_deletions :: "delete_config \<Rightarrow> remote \<Rightarrow> helper \<Rightarrow> string list \<Rightarrow> bool prog" where
  "run_deletions cfg R h contacts =
     bind (log h (newline @ ''Starting contact deletion process...'') INFO)
       (\<lambda>_. bind (process_deletions cfg R h contacts)
         (\<lambda>contacts_processed.
            bind (print_summary_delete R h contacts_processed)
              (\<lambda>_. return (list_all snd contacts_processed))))"

text \<open>Lines 277-312 of \<^verbatim>\<open>main\<close>, then the rest.\<close>

definition main_delete :: "delete_config \<Rightarrow> remote \<Rightarrow> string list \<Rightarrow> bool prog" where
  "main_delete cfg R contacts =
     bind (print_all [''AWS Incident Manager - Contact Deletion Script'', ''Version: 1.1''])
       (\<lambda>_. if contacts = []
             then bind (print_all [newline @ ''x No contacts specified for deletion.'',
                                   ''  Edit CONTACTS_TO_DELETE in this script to specify contacts.''])
                    (\<lambda>_. return False)
             else
               case clients_error R of
                 Some e \<Rightarrow>
                   bind (print (''x Error initializing AWS clients: '' @ exn_text e))
                     (\<lambda>_. return False)
               | None \<Rightarrow>
                   (let h = new_helper (del_dry_run cfg) (del_verbose cfg) (del_aws_region cfg)
                    in bind clear_account_id
                         (\<lambda>_. bind (log h ''AWS clients initialized'' INFO)
                           (\<lambda>_. bind (if del_dry_run cfg
                                      then print_all
                                             [newline @ rule_line, ''DRY RUN MODE ENABLED'',
                                              rule_line,
                                              ''No actual changes will be made to AWS resources.'',
                                              ''To perform actual deletion:'',
                                              ''  1. Set CONFIG['dry_run'] = False'',
                                              ''  2. Run the script again'',
                                              rule_line @ newline]
                                      else return ())
                             (\<lambda>_. bind (if require_confirmation cfg
                                        then confirm_deletion cfg R contacts
                                        else return True)
                               (\<lambda>confirmed.
                                  if \<not> confirmed
                                  then bind (log h ''Deletion cancelled by user'' WARN)
                                         (\<lambda>_. return False)
                                  else run_deletions cfg R h contacts))))))"

text \<open>
  Lines 331-333: \<^verbatim>\<open>success = main(); exit(0 if success else 1)\<close>. An exception that
  leaves \<^verbatim>\<open>main\<close> ends the process with status 1.
\<close>

definition script_delete :: "delete_config \<Rightarrow> remote \<Rightarrow> string list \<Rightarrow> world \<Rightarrow> int \<times> world" where
  "script_delete cfg R contacts w =
     (case main_delete cfg R contacts w of
        (Inr success, w') \<Rightarrow> (if success then 0 else 1, w')
      | (Inl e, w') \<Rightarrow> (1, w'))"

section \<open>Example environments\<close>

text \<open>The state in which a script starts.\<close>

definition initial_world :: world where
  "initial_world = \<lparr>events = [], console = [], account_id = None\<rparr>"

text \<open>
  A service that knows no contact and no response plan and accepts every request: the
  account is 123456789012, a created contact or channel gets a reference made from its
  alias or name.
\<close>

definition empty_service :: remote where
  "empty_service =
     \<lparr>clients_error = None,
      session_region = None,
      sts_get_caller_identity = (\<lambda>hist. Inr ''123456789012''),
      ssm_contacts_get_contact =
        (\<lambda>hist contact_arn. Inl (ClientError ''ResourceNotFoundException'' ''contact not found'')),
      ssm_contacts_create_contact = (\<lambda>hist alias display_name. Inr (''arn:contact/'' @ alias)),
      ssm_contacts_list_contact_channels = (\<lambda>hist contact_arn. Inr []),
      ssm_contacts_create_contact_channel =
        (\<lambda>hist contact_arn nm ty addr. Inr (''arn:channel/'' @ nm)),
      ssm_contacts_update_contact = (\<lambda>hist contact_arn stages. Inr ()),
      ssm_contacts_delete_contact_channel = (\<lambda>hist channel_arn. Inr ()),
      ssm_contacts_delete_contact = (\<lambda>hist contact_arn. Inr ()),
      ssm_incidents_get_response_plan = (\<lambda>hist plan_arn. Inr []),
      ssm_incidents_update_response_plan = (\<lambda>hist plan_arn engagements. Inr ()),
      ssm_incidents_list_response_plans = (\<lambda>hist. []),
      stdin = Inr ''DELETE''\<rparr>"

text \<open>The same service when the caller may not read contacts.\<close>

definition access_denied_service :: remote where
  "access_denied_service =
     empty_service\<lparr>ssm_contacts_get_contact :=
       (\<lambda>hist contact_arn. Inl (ClientError ''AccessDeniedException'' ''access denied''))\<rparr>"

text \<open>The same service when its endpoint cannot be reached for creating a contact.\<close>

definition unreachable_service :: remote where
  "unreachable_service =
     empty_service\<lparr>ssm_contacts_create_contact :=
       (\<lambda>hist alias display_name. Inl (OtherException ''Could not connect to the endpoint URL''))\<rparr>"

text \<open>
  A service on which the EMAIL channel of the contact exists already, so that creating it
  is a conflict, and on which listing channels is throttled.
\<close>

definition throttled_service :: remote where
  "throttled_service =
     empty_service\<lparr>
       ssm_contacts_create_contact_channel :=
         (\<lambda>hist contact_arn nm ty addr.
            if ty = ''EMAIL'' then Inl (ClientError ''ConflictException'' ''channel exists'')
            else Inr (''arn:channel/'' @ nm)),
       ssm_contacts_list_contact_channels :=
         (\<lambda>hist contact_arn. Inl (ClientError ''ThrottlingException'' ''rate exceeded''))\<rparr>"

definition example_helper :: helper where
  "example_helper = \<lparr>dry_run = False, verbose = True, region = None\<rparr>"

definition dry_helper :: helper where
  "dry_helper = \<lparr>dry_run = True, verbose = True, region = None\<rparr>"

text \<open>
  A service on which the EMAIL channel of the contact exists already and is listed: creating
  any channel is a conflict.
\<close>

definition conflict_service :: remote where
  "conflict_service =
     empty_service\<lparr>
       ssm_contacts_create_contact_channel :=
         (\<lambda>hist contact_arn nm ty addr. Inl (ClientError ''ConflictException'' ''channel exists'')),
       ssm_contacts_list_contact_channels :=
         (\<lambda>hist contact_arn.
            Inr [\<lparr>ContactChannelArn = ''arn:channel/existing-email'',
                  ChannelName = ''D V Cong - EMAIL'', ChannelType = ''EMAIL''\<rparr>])\<rparr>"

definition dvcong :: contact_details where
  "dvcong = \<lparr>name = ''D V Cong'', channels =
     [channel ''EMAIL'' ''dvcong@vinamilk.com.vn'' 10, channel ''SMS'' ''+84344353188'' 15]\<rparr>"

text \<open>
  A service that knows every contact, each with one EMAIL channel, and one response plan
  that engages the contact \<open>asdasd\<close>.
\<close>

definition populated_service :: remote where
  "populated_service =
     empty_service\<lparr>
       ssm_contacts_get_contact :=
         (\<lambda>hist contact_arn. Inr \<lparr>DisplayName = Some ''A S Dasd'', ContactType = Some ''PERSONAL''\<rparr>),
       ssm_contacts_list_contact_channels :=
         (\<lambda>hist contact_arn.
            Inr [\<lparr>ContactChannelArn = ''arn:channel/asdasd-email'',
                  ChannelName = ''A S Dasd - EMAIL'', ChannelType = ''EMAIL''\<rparr>]),
       ssm_incidents_list_response_plans :=
         (\<lambda>hist. [Inr [\<lparr>summary_arn = ''arn:plan/high'', summary_name = ''high''\<rparr>]]),
       ssm_incidents_get_response_plan :=
         (\<lambda>hist plan_arn.
            Inr [''arn:aws:ssm-contacts:us-east-1:123456789012:contact/asdasd''])\<rparr>"

section \<open>Observations on a run\<close>

text \<open>The mutating requests sent so far.\<close>

definition mutations :: "world \<Rightarrow> event list" where
  "mutations w = filter mutating (events w)"

text \<open>A statement that sends no mutating request, from whatever state it runs.\<close>

definition quiet :: "'a prog \<Rightarrow> bool" where
  "quiet m = (\<forall>w. mutations (snd (m w)) = mutations w)"

definition quiet_partial :: "'s partial \<Rightarrow> bool" where
  "quiet_partial m = (\<forall>w. mutations (snd (m w)) = mutations w)"

text \<open>
  The events after \<open>j\<close> failed attempts of a retried request, each followed by the sleep
  of \<open>d\<close> seconds.
\<close>

definition after_attempts :: "event list \<Rightarrow> request \<Rightarrow> int \<Rightarrow> nat \<Rightarrow> event list" where
  "after_attempts hist req d j = hist @ concat (replicate j [Call req, Sleep d])"

text \<open>A statement that never returns \<^verbatim>\<open>True\<close>: it returns \<^verbatim>\<open>False\<close> or raises.\<close>

definition never_True :: "bool prog \<Rightarrow> bool" where
  "never_True m = (\<forall>w. fst (m w) \<noteq> Inr True)"

text \<open>The lines written by \<^verbatim>\<open>print\<close>, without those of \<^verbatim>\<open>helper.log\<close>.\<close>

definition printed :: "world \<Rightarrow> string list" where
  "printed w = concat (map (\<lambda>l. case l of Print s \<Rightarrow> [s] | Log lvl message \<Rightarrow> []) (console w))"

section \<open>Properties of the builder\<close>

lemma dict_set_keys:
  "map fst (dict_set k v d) = (if k \<in> fst ` set d then map fst d else map fst d @ [k])"
  by (induction d) force+

lemma dict_set_map_of: "map_of (dict_set k v d) = (map_of d)(k \<mapsto> v)"
  by (induction d) (auto simp: fun_eq_iff)

lemma dict_set_dom: "fst ` set (dict_set k v d) = insert k (fst ` set d)"
  by (simp add: dict_set_keys [THEN arg_cong, of set, simplified] insert_absorb)

lemma dict_set_distinct: "distinct (map fst d) \<Longrightarrow> distinct (map fst (dict_set k v d))"
  by (induction d) (auto simp: dict_set_dom)

lemma add_to_group_keys:
  "fst ` set (add_to_group g c) = insert (ci_engagement_time c) (fst ` set g)"
  by (auto simp: add_to_group_def Let_def dict_set_dom split: option.splits)

lemma add_to_group_distinct:
  "distinct (map fst g) \<Longrightarrow> distinct (map fst (add_to_group g c))"
  by (auto simp: add_to_group_def Let_def dict_set_distinct split: option.splits)

lemma add_to_group_lookup:
  "map_of (add_to_group g c) t =
     (if t = ci_engagement_time c
      then Some ((case map_of g t of None \<Rightarrow> [] | Some cs \<Rightarrow> cs) @ [c])
      else map_of g t)"
proof (cases "map_of g (ci_engagement_time c)")
  case None
  then have "ci_engagement_time c \<notin> fst ` set g"
    by (simp add: map_of_eq_None_iff)
  with None show ?thesis
    by (simp add: add_to_group_def Let_def dict_set_map_of)
next
  case (Some cs)
  then have "ci_engagement_time c \<in> fst ` set g"
    by (metis map_of_eq_None_iff option.distinct(1))
  with Some show ?thesis
    by (simp add: add_to_group_def Let_def dict_set_map_of)
qed

lemma engagement_groups_snoc:
  "engagement_groups (info @ [c]) = add_to_group (engagement_groups info) c"
  by (simp add: engagement_groups_def)

lemma groups_keys: "fst ` set (engagement_groups info) = ci_engagement_time ` set info"
proof (induction info rule: rev_induct)
  case Nil
  show ?case by (simp add: engagement_groups_def)
next
  case (snoc c info)
  then show ?case
    by (simp add: engagement_groups_snoc add_to_group_keys)
qed

lemma groups_distinct: "distinct (map fst (engagement_groups info))"
proof (induction info rule: rev_induct)
  case Nil
  show ?case by (simp add: engagement_groups_def)
next
  case (snoc c info)
  then show ?case
    by (simp only: engagement_groups_snoc add_to_group_distinct)
qed

lemma filter_other_time:
  "t \<notin> ci_engagement_time ` set info \<Longrightarrow> filter (\<lambda>c. ci_engagement_time c = t) info = []"
  by (induction info) auto

lemma groups_lookup:
  "map_of (engagement_groups info) t =
     (if t \<in> ci_engagement_time ` set info
      then Some (filter (\<lambda>c. ci_engagement_time c = t) info) else None)"
proof (induction info rule: rev_induct)
  case Nil
  show ?case by (simp add: engagement_groups_def)
next
  case (snoc c info)
  have "filter (\<lambda>x. ci_engagement_time x = ci_engagement_time c) info = []"
    if "ci_engagement_time c \<notin> ci_engagement_time ` set info"
    using that by (rule filter_other_time)
  then show ?case
    unfolding engagement_groups_snoc add_to_group_lookup snoc.IH
    by auto
qed

lemma channels_at_this_time_filter:
  "channels_at_this_time (engagement_groups info) t =
     filter (\<lambda>c. ci_engagement_time c = t) info"
proof (cases "t \<in> ci_engagement_time ` set info")
  case True
  then show ?thesis by (simp add: channels_at_this_time_def groups_lookup)
next
  case False
  then have "filter (\<lambda>c. ci_engagement_time c = t) info = []"
    by (rule filter_other_time)
  with False show ?thesis by (simp add: channels_at_this_time_def groups_lookup)
qed

lemma times_set: "set (sorted_engagement_times info) = ci_engagement_time ` set info"
  by (simp add: sorted_engagement_times_def groups_keys)

lemma times_sorted: "sorted (sorted_engagement_times info)"
  by (simp add: sorted_engagement_times_def)

lemma times_distinct: "distinct (sorted_engagement_times info)"
  by (simp add: sorted_engagement_times_def groups_distinct)

lemma times_nonempty: "info \<noteq> [] \<Longrightarrow> sorted_engagement_times info \<noteq> []"
  using times_set [of info] by (cases "sorted_engagement_times info") auto


lemma stage_at_duration:
  "DurationInMinutes (stage_at g ts i) = (if i + 1 < length ts then ts ! (i + 1) - ts ! i else 1)"
  by (simp add: stage_at_def Let_def)

lemma stage_at_targets:
  "Targets (stage_at (engagement_groups info) ts i) =
     map target_of (filter (\<lambda>c. ci_engagement_time c = ts ! i) info)"
  by (simp add: stage_at_def Let_def channels_at_this_time_filter)


lemma initial_wait_length: "length (initial_wait_stage ts) \<le> 1"
  by (simp add: initial_wait_stage_def split: list.splits)



lemma build_plan_stages_length:
  "length (build_plan_stages info) =
     length (initial_wait_stage (sorted_engagement_times info)) +
     length (sorted_engagement_times info)"
  by (simp add: build_plan_stages_def Let_def)



lemma sorted_hd_Min: "sorted ts \<Longrightarrow> ts \<noteq> [] \<Longrightarrow> ts ! 0 = Min (set ts)"
  by (cases ts) (auto intro!: Min_eqI [symmetric])

lemma first_time_Min:
  "info \<noteq> [] \<Longrightarrow> sorted_engagement_times info ! 0 = Min (ci_engagement_time ` set info)"
  using sorted_hd_Min [OF times_sorted times_nonempty, of info] by (simp add: times_set)

section \<open>Running statements\<close>

lemma return_apply: "return x w = (Inr x, w)"
  by (simp add: return_def)

lemma raise_apply: "raise e w = (Inl e, w)"
  by (simp add: raise_def)

lemma bind_apply:
  "bind m f w = (case m w of (Inl e, w') \<Rightarrow> (Inl e, w') | (Inr x, w') \<Rightarrow> f x w')"
  by (simp add: bind_def)

lemma try_except_apply:
  "try_except m handler w =
     (case m w of (Inl e, w') \<Rightarrow> handler e w' | (Inr x, w') \<Rightarrow> (Inr x, w'))"
  by (simp add: try_except_def)

lemma except_ClientError_apply:
  "except_ClientError m handler w =
     (case m w of
        (Inl (ClientError code text), w') \<Rightarrow> handler code (ClientError code text) w'
      | (Inl (OtherException text), w') \<Rightarrow> (Inl (OtherException text), w')
      | (Inr x, w') \<Rightarrow> (Inr x, w'))"
  by (simp add: except_ClientError_def try_except_def raise_def split: prod.splits sum.splits exn.splits)

lemma log_apply:
  "log h message lvl w =
     (Inr (), if \<not> verbose h \<and> lvl = DEBUG then w else w\<lparr>console := console w @ [Log lvl message]\<rparr>)"
  by (simp add: log_def)

lemma log_events: "events (snd (log h message lvl w)) = events w"
  by (simp add: log_def)

lemma log_result: "fst (log h message lvl w) = Inr ()"
  by (simp add: log_def)

lemma log_account: "account_id (snd (log h message lvl w)) = account_id w"
  by (simp add: log_def)

lemma remote_call_apply:
  "remote_call req respond w = (respond (events w), w\<lparr>events := events w @ [Call req]\<rparr>)"
  by (simp add: remote_call_def)

lemmas client_defs =
  sts_client_get_caller_identity_def contacts_client_get_contact_def
  contacts_client_create_contact_def contacts_client_list_contact_channels_def
  contacts_client_create_contact_channel_def contacts_client_update_contact_def
  contacts_client_delete_contact_channel_def contacts_client_delete_contact_def
  incidents_client_get_response_plan_def incidents_client_update_response_plan_def

lemmas run_simps =
  return_apply raise_apply bind_apply try_except_apply except_ClientError_apply log_apply
  remote_call_apply

lemma log_all_apply:
  "log_all h messages lvl w =
     (Inr (), if \<not> verbose h \<and> lvl = DEBUG then w
              else w\<lparr>console := console w @ map (Log lvl) messages\<rparr>)"
proof (induction messages arbitrary: w)
  case Nil
  show ?case by (simp add: log_all_def return_apply)
next
  case (Cons m ms)
  have "log_all h (m # ms) lvl w = log_all h ms lvl (snd (log h m lvl w))"
    by (simp add: log_all_def bind_apply log_apply)
  then show ?case by (simp add: Cons.IH log_apply)
qed

lemma print_apply: "print s w = (Inr (), w\<lparr>console := console w @ [Print s]\<rparr>)"
  by (simp add: print_def)

lemma print_all_apply:
  "print_all ls w = (Inr (), w\<lparr>console := console w @ map Print ls\<rparr>)"
proof (induction ls arbitrary: w)
  case Nil
  show ?case by (simp add: print_all_def return_apply)
next
  case (Cons l ls)
  have "print_all (l # ls) w = print_all ls (snd (print l w))"
    by (simp add: print_all_def bind_apply print_apply)
  then show ?case by (simp add: Cons.IH print_apply)
qed

lemmas io_simps = run_simps log_all_apply print_apply print_all_apply

lemma for_loop_Cons_apply:
  "for_loop (x # xs) body s w =
     (case body x s w of (Inl e, w') \<Rightarrow> (Inl e, w') | (Inr s', w') \<Rightarrow> for_loop xs body s' w')"
  by (simp add: bind_apply)

lemma clear_account_id_apply: "clear_account_id w = (Inr (), w\<lparr>account_id := None\<rparr>)"
  by (simp add: clear_account_id_def)

lemma never_True_return: "never_True (return False)"
  by (simp add: never_True_def return_apply)

lemma never_True_bind: "(\<And>x. never_True (f x)) \<Longrightarrow> never_True (bind m f)"
  by (auto simp: never_True_def bind_apply split: prod.splits sum.splits)

lemma never_True_if:
  "(c \<Longrightarrow> never_True a) \<Longrightarrow> (\<not> c \<Longrightarrow> never_True b) \<Longrightarrow> never_True (if c then a else b)"
  by simp

lemma never_True_case_option:
  "(x = None \<Longrightarrow> never_True a) \<Longrightarrow> (\<And>y. x = Some y \<Longrightarrow> never_True (b y)) \<Longrightarrow>
     never_True (case x of None \<Rightarrow> a | Some y \<Rightarrow> b y)"
  by (cases x) simp_all

section \<open>The retry loop\<close>

lemma retry_loop_fail_step:
  assumes "respond (events w) = Inl (ClientError code msg)"
    and "attempt \<noteq> retry_attempts cfg - 1" and "0 \<le> retry_delay cfg"
  shows "\<exists>w'. retry_loop cfg h (remote_call req respond) (attempt # rest) w =
                retry_loop cfg h (remote_call req respond) rest w' \<and>
              events w' = events w @ [Call req, Sleep (retry_delay cfg)]"
  using assms
  by (simp add: run_simps sleep_def) (rule exI, rule conjI, rule refl, simp)

lemma upto_step: "a \<le> b \<Longrightarrow> [a..b] = a # [a + 1..b]"
  by (simp add: upto_rec1)

lemma retry_loop_failures:
  assumes "\<forall>j<k. \<exists>code msg.
             respond (after_attempts (events w) req (retry_delay cfg) j) = Inl (ClientError code msg)"
    and "a + int k \<le> retry_attempts cfg - 1" and "0 \<le> retry_delay cfg"
  shows "\<exists>w'. retry_loop cfg h (remote_call req respond) [a..retry_attempts cfg - 1] w =
                retry_loop cfg h (remote_call req respond) [a + int k..retry_attempts cfg - 1] w' \<and>
              events w' = after_attempts (events w) req (retry_delay cfg) k"
  using assms
proof (induction k arbitrary: w a)
  case 0
  show ?case by (rule exI [of _ w]) (simp add: after_attempts_def)
next
  case (Suc k)
  from Suc.prems(1) [rule_format, of 0]
  obtain code msg where first: "respond (events w) = Inl (ClientError code msg)"
    by (auto simp: after_attempts_def)
  from Suc.prems(2) have a: "a \<noteq> retry_attempts cfg - 1" "a \<le> retry_attempts cfg - 1" by auto
  from retry_loop_fail_step [where respond = respond and w = w and h = h and req = req
      and rest = "[a + 1..retry_attempts cfg - 1]", OF first a(1) Suc.prems(3)]
  obtain w1 where w1: "retry_loop cfg h (remote_call req respond) (a # [a + 1..retry_attempts cfg - 1]) w =
      retry_loop cfg h (remote_call req respond) [a + 1..retry_attempts cfg - 1] w1"
    and ev1: "events w1 = events w @ [Call req, Sleep (retry_delay cfg)]"
    by blast
  have later: "\<forall>j<k. \<exists>code msg.
      respond (after_attempts (events w1) req (retry_delay cfg) j) = Inl (ClientError code msg)"
  proof (intro allI impI)
    fix j assume "j < k"
    then have "Suc j < Suc k" by simp
    from Suc.prems(1) [rule_format, OF this]
    show "\<exists>code msg. respond (after_attempts (events w1) req (retry_delay cfg) j) =
            Inl (ClientError code msg)"
      by (simp add: after_attempts_def ev1)
  qed
  from Suc.prems(2) have "a + 1 + int k \<le> retry_attempts cfg - 1" by simp
  from Suc.IH [OF later this Suc.prems(3)]
  obtain w' where "retry_loop cfg h (remote_call req respond) [a + 1..retry_attempts cfg - 1] w1 =
      retry_loop cfg h (remote_call req respond) [a + 1 + int k..retry_attempts cfg - 1] w'"
    and "events w' = after_attempts (events w1) req (retry_delay cfg) k"
    by blast
  with w1 ev1 a(2) show ?case
    by (intro exI [of _ w']) (simp add: upto_step after_attempts_def add.assoc)
qed

lemma retry_loop_last_step:
  assumes "a \<le> retry_attempts cfg - 1"
  shows "retry_loop cfg h (remote_call req respond) [a..retry_attempts cfg - 1] w =
     (case respond (events w) of
        Inr v \<Rightarrow> (Inr (Some v), w\<lparr>events := events w @ [Call req]\<rparr>)
      | Inl (OtherException msg) \<Rightarrow> (Inl (OtherException msg), w\<lparr>events := events w @ [Call req]\<rparr>)
      | Inl (ClientError code msg) \<Rightarrow>
          if a = retry_attempts cfg - 1
          then (Inl (ClientError code msg), w\<lparr>events := events w @ [Call req]\<rparr>)
          else retry_loop cfg h (remote_call req respond) (a # [a + 1..retry_attempts cfg - 1]) w)"
  using assms
  by (simp add: upto_step run_simps split: sum.splits exn.splits)

section \<open>Creating channels\<close>

lemma channels_by_type_snoc:
  "channels_by_type (chans @ [ch]) =
     dict_set (ChannelType ch) (ContactChannelArn ch) (channels_by_type chans)"
  by (simp add: channels_by_type_def)

lemma channels_by_type_keys: "fst ` set (channels_by_type chans) = ChannelType ` set chans"
proof (induction chans rule: rev_induct)
  case Nil
  show ?case by (simp add: channels_by_type_def)
next
  case (snoc ch chans)
  then show ?case by (simp add: channels_by_type_snoc dict_set_dom)
qed

lemma channels_by_type_None:
  "map_of (channels_by_type chans) ty = None \<longleftrightarrow> ty \<notin> ChannelType ` set chans"
  by (simp add: map_of_eq_None_iff channels_by_type_keys)

lemma channels_by_type_Some:
  "map_of (channels_by_type chans) ty = Some a \<Longrightarrow>
     \<exists>ch \<in> set chans. ChannelType ch = ty \<and> ContactChannelArn ch = a"
proof (induction chans arbitrary: a rule: rev_induct)
  case Nil
  then show ?case by (simp add: channels_by_type_def)
next
  case (snoc ch chans)
  then show ?case
    by (cases "ty = ChannelType ch") (auto simp: channels_by_type_snoc dict_set_map_of)
qed

lemma get_existing_contact_channels_run:
  assumes "\<not> dry_run h"
  shows "get_existing_contact_channels R h contact_arn w =
     (case ssm_contacts_list_contact_channels R (events w) contact_arn of
        Inr chans \<Rightarrow> Inr (channels_by_type chans)
      | Inl (ClientError code msg) \<Rightarrow> Inr []
      | Inl (OtherException msg) \<Rightarrow> Inl (OtherException msg),
      w\<lparr>events := events w @ [Call (ListContactChannels contact_arn)]\<rparr>)"
  using assms
  by (simp add: get_existing_contact_channels_def run_simps client_defs
      split: sum.splits exn.splits)

lemma create_contact_channel_ClientError:
  assumes "\<not> dry_run h"
    and "retry_operation cfg h
           (contacts_client_create_contact_channel R contact_arn
              (contact_name @ '' - '' @ channel_type cc) (channel_type cc) (address cc)) w =
         (Inl (ClientError code msg), w1)"
  shows "fst (create_contact_channel cfg R h contact_arn cc contact_name w) =
     (if code = ''ConflictException''
      then (case ssm_contacts_list_contact_channels R (events w1) contact_arn of
              Inr chans \<Rightarrow> Inr (map_of (channels_by_type chans) (channel_type cc))
            | Inl (ClientError c m) \<Rightarrow> Inr None
            | Inl (OtherException m) \<Rightarrow> Inl (OtherException m))
      else Inl (ClientError code msg))"
  using assms
  by (simp add: create_contact_channel_def Let_def except_ClientError_apply bind_apply
      log_apply raise_apply return_apply get_existing_contact_channels_run
      split: sum.splits exn.splits)

lemma retry_conflict_service:
  "fst (retry_operation CONFIG example_helper
          (contacts_client_create_contact_channel conflict_service ''arn:contact/dvcong''
             (''D V Cong'' @ '' - '' @ ''EMAIL'') ''EMAIL'' ''dvcong@vinamilk.com.vn'') initial_world) =
     Inl (ClientError ''ConflictException'' ''channel exists'')"
  by (simp add: CONFIG_def retry_operation_def upto_step run_simps client_defs sleep_def
      conflict_service_def empty_service_def initial_world_def)




lemmas update_defs =
  create_or_update_contact_def contact_exists_def get_contact_arn_def get_account_id_def
  region_or_default_def collect_channel_arns_def create_and_store_def store_channel_arn_def
  create_contact_channel_def get_existing_contact_channels_def update_contact_plan_def
  retry_operation_def




section \<open>Deleting a contact that does not exist\<close>

lemma delete_contact_not_found:
  assumes "get_contact_arn R h alias w = (Inr contact_arn, w1)"
    and "ssm_contacts_get_contact R (events w1) contact_arn =
           Inl (ClientError ''ResourceNotFoundException'' msg)"
  shows "delete_contact cfg R h alias w =
     (Inr False,
      w1\<lparr>events := events w1 @ [Call (GetContact contact_arn)],
         console := console w1 @ [Log WARN (''Contact not found: '' @ alias)]\<rparr>)"
  using assms
  by (simp add: delete_contact_def get_contact_details_def run_simps client_defs)

lemma get_contact_arn_cases:
  "(\<exists>e w1. get_contact_arn R h alias w = (Inl e, w1)) \<or>
   (\<exists>account w1. get_contact_arn R h alias w =
      (Inr (''arn:aws:ssm-contacts:'' @ region_or_default R h @ '':'' @ account @
            '':contact/'' @ alias), w1))"
  by (simp add: get_contact_arn_def get_account_id_def run_simps client_defs
      split: option.splits sum.splits)

lemma record_deletion_result:
  "\<exists>b w'. record_deletion cfg R h a acc w = (Inr (dict_set a b acc), w')"
  by (auto simp: record_deletion_def run_simps split: prod.splits sum.splits)

lemma record_deletion_not_found:
  assumes "\<forall>hist account. \<exists>msg.
      ssm_contacts_get_contact R hist
        (''arn:aws:ssm-contacts:'' @ region_or_default R h @ '':'' @ account @ '':contact/'' @ alias) =
      Inl (ClientError ''ResourceNotFoundException'' msg)"
  shows "\<exists>w'. record_deletion cfg R h alias acc w = (Inr (dict_set alias False acc), w')"
proof -
  from get_contact_arn_cases [of R h "alias" w]
  show ?thesis
  proof (elim disjE exE)
    fix e w1 assume "get_contact_arn R h alias w = (Inl e, w1)"
    then show ?thesis
      by (simp add: record_deletion_def delete_contact_def get_contact_details_def run_simps)
  next
    fix account w1
    assume arn: "get_contact_arn R h alias w =
      (Inr (''arn:aws:ssm-contacts:'' @ region_or_default R h @ '':'' @ account @
            '':contact/'' @ alias), w1)"
    from assms obtain msg where "ssm_contacts_get_contact R (events w1)
        (''arn:aws:ssm-contacts:'' @ region_or_default R h @ '':'' @ account @ '':contact/'' @ alias) =
      Inl (ClientError ''ResourceNotFoundException'' msg)"
      by blast
    from delete_contact_not_found [OF arn this, of cfg] show ?thesis
      by (simp add: record_deletion_def run_simps)
  qed
qed

lemma process_deletions_not_found:
  assumes stable: "\<forall>hist account. \<exists>msg.
      ssm_contacts_get_contact R hist
        (''arn:aws:ssm-contacts:'' @ region_or_default R h @ '':'' @ account @ '':contact/'' @ alias) =
      Inl (ClientError ''ResourceNotFoundException'' msg)"
    and "alias \<in> set contacts \<or> map_of acc alias = Some False"
  shows "\<exists>acc' w'. for_loop contacts (record_deletion cfg R h) acc w = (Inr acc', w') \<and>
                    map_of acc' alias = Some False"
  using assms(2)
proof (induction contacts arbitrary: acc w)
  case Nil
  then show ?case by (simp add: return_apply)
next
  case (Cons a contacts)
  show ?case
  proof (cases "a = alias")
    case True
    from record_deletion_not_found [OF stable, of cfg acc w]
    obtain w1 where step: "record_deletion cfg R h alias acc w = (Inr (dict_set alias False acc), w1)"
      by blast
    have "map_of (dict_set alias False acc) alias = Some False"
      by (simp add: dict_set_map_of)
    then have "alias \<in> set contacts \<or> map_of (dict_set alias False acc) alias = Some False" ..
    from Cons.IH [OF this, of w1] show ?thesis
      by (simp add: for_loop_Cons_apply True step del: for_loop.simps)
  next
    case False
    from record_deletion_result [of cfg R h a acc w]
    obtain b w1 where step: "record_deletion cfg R h a acc w = (Inr (dict_set a b acc), w1)"
      by blast
    from False Cons.prems
    have "alias \<in> set contacts \<or> map_of (dict_set a b acc) alias = Some False"
      by (auto simp: dict_set_map_of)
    from Cons.IH [OF this, of w1] show ?thesis
      by (simp add: for_loop_Cons_apply step del: for_loop.simps)
  qed
qed

lemma run_deletions_not_found:
  assumes stable: "\<forall>hist account. \<exists>msg.
      ssm_contacts_get_contact R hist
        (''arn:aws:ssm-contacts:'' @ region_or_default R h @ '':'' @ account @ '':contact/'' @ alias) =
      Inl (ClientError ''ResourceNotFoundException'' msg)"
    and listed: "alias \<in> set contacts"
  shows "never_True (run_deletions cfg R h contacts)"
proof -
  have loop: "\<not> list_all snd acc'"
    if "for_loop contacts (record_deletion cfg R h) [] w0 = (Inr acc', w1)" for w0 acc' w1
  proof -
    from listed have "alias \<in> set contacts \<or> map_of [] alias = Some False" ..
    from process_deletions_not_found [OF stable this, of cfg w0] that
    have "map_of acc' alias = Some False" by auto
    then have "(alias, False) \<in> set acc'" by (rule map_of_SomeD)
    then show ?thesis by (force simp: list_all_iff)
  qed
  show ?thesis
    unfolding never_True_def
  proof
    fix w
    show "fst (run_deletions cfg R h contacts w) \<noteq> Inr True"
      by (auto simp: run_deletions_def process_deletions_def bind_apply return_apply
          split: prod.splits sum.splits dest: loop)
  qed
qed

lemma main_delete_not_found:
  assumes stable: "\<forall>hist account. \<exists>msg.
      ssm_contacts_get_contact R hist
        (''arn:aws:ssm-contacts:'' @
         region_or_default R (new_helper (del_dry_run cfg) (del_verbose cfg) (del_aws_region cfg)) @
         '':'' @ account @ '':contact/'' @ alias) =
      Inl (ClientError ''ResourceNotFoundException'' msg)"
    and listed: "alias \<in> set contacts"
  shows "never_True (main_delete cfg R contacts)"
proof -
  note last = run_deletions_not_found [OF stable listed, of cfg]
  show ?thesis
    unfolding main_delete_def Let_def
    by (intro never_True_bind never_True_if never_True_case_option never_True_return last)
qed

lemma script_delete_status:
  assumes "never_True (main_delete cfg R contacts)"
  shows "fst (script_delete cfg R contacts w) = 1"
proof -
  from assms have "fst (main_delete cfg R contacts w) \<noteq> Inr True"
    by (simp add: never_True_def)
  then show ?thesis
    by (cases "main_delete cfg R contacts w") (auto simp: script_delete_def split: sum.splits)
qed

lemmas delete_defs =
  main_delete_def run_deletions_def process_deletions_def record_deletion_def
  delete_contact_def get_contact_details_def get_contact_channels_def
  print_summary_delete_def failed_aliases_def new_helper_def clear_account_id_apply
  get_contact_arn_def get_account_id_def region_or_default_def region_text_def
  script_delete_def

section \<open>Statements that send no mutating request\<close>

lemma quietD: "quiet m \<Longrightarrow> m w = (r, w') \<Longrightarrow> mutations w' = mutations w"
  by (metis quiet_def snd_conv)

lemma quiet_partialD: "quiet_partial m \<Longrightarrow> m w = (r, w') \<Longrightarrow> mutations w' = mutations w"
  by (metis quiet_partial_def snd_conv)

lemma quiet_return: "quiet (return x)"
  by (simp add: quiet_def return_apply)

lemma quiet_raise: "quiet (raise e)"
  by (simp add: quiet_def raise_apply)

lemma quiet_log: "quiet (log h message lvl)"
  by (simp add: quiet_def log_apply mutations_def)

lemma quiet_log_all: "quiet (log_all h messages lvl)"
  by (simp add: quiet_def log_all_apply mutations_def)

lemma quiet_print: "quiet (print s)"
  by (simp add: quiet_def print_apply mutations_def)

lemma quiet_print_all: "quiet (print_all ls)"
  by (simp add: quiet_def print_all_apply mutations_def)

lemma quiet_clear_account_id: "quiet clear_account_id"
  by (simp add: quiet_def clear_account_id_apply mutations_def)

lemma quiet_bind:
  assumes "quiet m" and "\<And>x. quiet (f x)"
  shows "quiet (bind m f)"
  unfolding quiet_def
proof
  fix w
  obtain r w' where mw: "m w = (r, w')" by (cases "m w")
  with assms(1) have w': "mutations w' = mutations w" by (rule quietD)
  show "mutations (snd (bind m f w)) = mutations w"
  proof (cases r)
    case (Inl e)
    with mw w' show ?thesis by (simp add: bind_apply)
  next
    case (Inr x)
    obtain r2 w2 where fx: "f x w' = (r2, w2)" by (cases "f x w'")
    with assms(2) have "mutations w2 = mutations w'" by (rule quietD)
    with Inr mw w' fx show ?thesis by (simp add: bind_apply)
  qed
qed

lemma quiet_try_except:
  assumes "quiet m" and "\<And>e. quiet (handler e)"
  shows "quiet (try_except m handler)"
  unfolding quiet_def
proof
  fix w
  obtain r w' where mw: "m w = (r, w')" by (cases "m w")
  with assms(1) have w': "mutations w' = mutations w" by (rule quietD)
  show "mutations (snd (try_except m handler w)) = mutations w"
  proof (cases r)
    case (Inr x)
    with mw w' show ?thesis by (simp add: try_except_apply)
  next
    case (Inl e)
    obtain r2 w2 where he: "handler e w' = (r2, w2)" by (cases "handler e w'")
    with assms(2) have "mutations w2 = mutations w'" by (rule quietD)
    with Inl mw w' he show ?thesis by (simp add: try_except_apply)
  qed
qed

lemma quiet_except_ClientError:
  assumes "quiet m" and "\<And>code e. quiet (handler code e)"
  shows "quiet (except_ClientError m handler)"
  unfolding except_ClientError_def
  by (rule quiet_try_except [OF assms(1)]) (simp add: assms(2) quiet_raise split: exn.splits)

lemma quiet_for_loop:
  assumes "\<And>x s. quiet (body x s)"
  shows "quiet (for_loop xs body s)"
proof (induction xs arbitrary: s)
  case Nil
  show ?case by (simp add: quiet_return)
next
  case (Cons x xs)
  show ?case by (simp add: quiet_bind assms Cons.IH)
qed

lemma quiet_if: "(c \<Longrightarrow> quiet a) \<Longrightarrow> (\<not> c \<Longrightarrow> quiet b) \<Longrightarrow> quiet (if c then a else b)"
  by simp

lemma quiet_case_option:
  "(x = None \<Longrightarrow> quiet a) \<Longrightarrow> (\<And>y. x = Some y \<Longrightarrow> quiet (b y)) \<Longrightarrow>
     quiet (case x of None \<Rightarrow> a | Some y \<Rightarrow> b y)"
  by (cases x) simp_all

lemma quiet_case_sum:
  "(\<And>y. x = Inl y \<Longrightarrow> quiet (a y)) \<Longrightarrow> (\<And>y. x = Inr y \<Longrightarrow> quiet (b y)) \<Longrightarrow>
     quiet (case x of Inl y \<Rightarrow> a y | Inr y \<Rightarrow> b y)"
  by (cases x) simp_all

lemma quiet_case_prod: "(\<And>a b. quiet (f a b)) \<Longrightarrow> quiet (case p of (a, b) \<Rightarrow> f a b)"
  by (cases p) simp

lemma quiet_case_prod_arg:
  "(\<And>a b. quiet (f a b s)) \<Longrightarrow> quiet ((case p of (a, b) \<Rightarrow> f a b) s)"
  by (cases p) simp

lemma quiet_remote_call: "\<not> mutating (Call req) \<Longrightarrow> quiet (remote_call req respond)"
  by (simp add: quiet_def remote_call_apply mutations_def)

lemma quiet_reads:
  "quiet (sts_client_get_caller_identity R)"
  "quiet (contacts_client_get_contact R contact_arn)"
  "quiet (contacts_client_list_contact_channels R contact_arn)"
  "quiet (incidents_client_get_response_plan R plan_arn)"
  by (simp_all add: client_defs quiet_remote_call)

lemma quiet_get_account_id: "quiet (get_account_id R)"
  unfolding quiet_def
proof
  fix w
  show "mutations (snd (get_account_id R w)) = mutations w"
    by (cases "sts_get_caller_identity R (events w)")
       (simp_all add: get_account_id_def run_simps client_defs mutations_def split: option.splits)
qed

lemma quiet_get_contact_arn: "quiet (get_contact_arn R h a)"
  by (simp add: get_contact_arn_def quiet_bind quiet_get_account_id quiet_return)

lemma quiet_get_response_plan_arn: "quiet (get_response_plan_arn R plan_name)"
  by (simp add: get_response_plan_arn_def quiet_bind quiet_get_account_id quiet_return)

lemmas quiet_intros =
  quiet_return quiet_raise quiet_log quiet_log_all quiet_print quiet_print_all
  quiet_clear_account_id quiet_bind quiet_try_except quiet_except_ClientError quiet_for_loop
  quiet_if quiet_case_option quiet_case_prod quiet_case_prod_arg quiet_reads quiet_get_account_id
  quiet_get_contact_arn quiet_get_response_plan_arn

subsection \<open>im-update1.py in dry-run mode\<close>

lemma quiet_contact_exists: "dry_run h \<Longrightarrow> quiet (contact_exists R h a)"
  by (simp add: contact_exists_def) (intro quiet_intros)

lemma quiet_get_existing_contact_channels:
  "dry_run h \<Longrightarrow> quiet (get_existing_contact_channels R h contact_arn)"
  by (simp add: get_existing_contact_channels_def) (intro quiet_intros)

lemma quiet_create_contact_channel:
  "dry_run h \<Longrightarrow> quiet (create_contact_channel cfg R h contact_arn cc contact_name)"
  by (simp add: create_contact_channel_def Let_def) (intro quiet_intros)

lemma quiet_create_or_update_contact:
  "dry_run h \<Longrightarrow> quiet (create_or_update_contact cfg R h a details)"
  by (simp add: create_or_update_contact_def) (intro quiet_intros)

lemma quiet_update_response_plan:
  "dry_run h \<Longrightarrow> quiet (update_response_plan cfg R h plan_name details contact_arns)"
  by (simp add: update_response_plan_def) (auto intro!: quiet_intros)

lemma quiet_validate_configuration: "quiet (validate_configuration h defs plans)"
  unfolding validate_configuration_def by (intro quiet_intros)

lemma quiet_print_summary_update: "quiet (print_summary_update cfg R h defs plans contact_arns)"
  unfolding print_summary_update_def by (intro quiet_intros)

lemma quiet_process_contact: "dry_run h \<Longrightarrow> quiet (process_contact cfg R h entry vars)"
  unfolding process_contact_def
  by (intro quiet_intros quiet_create_or_update_contact)

lemma quiet_process_response_plan:
  "dry_run h \<Longrightarrow> quiet (process_response_plan cfg R h contact_arns entry success)"
  unfolding process_response_plan_def
  by (intro quiet_intros quiet_update_response_plan)

lemma quiet_process_configuration:
  "dry_run h \<Longrightarrow> quiet (process_configuration cfg R h defs plans)"
  unfolding process_configuration_def process_contact_definitions_def process_response_plans_def
  by (intro quiet_intros quiet_print_summary_update quiet_process_contact
      quiet_process_response_plan)

lemma quiet_main_update: "cfg_dry_run cfg \<Longrightarrow> quiet (main_update cfg R defs plans)"
  unfolding main_update_def Let_def
  by (intro quiet_intros quiet_validate_configuration quiet_process_configuration)
     (simp add: new_helper_def)

lemma script_update_mutations:
  "quiet (main_update cfg R defs plans) \<Longrightarrow>
     mutations (snd (script_update cfg R defs plans w)) = mutations w"
  by (cases "main_update cfg R defs plans w")
     (auto simp: script_update_def split: sum.splits dest: quietD)

subsection \<open>im-delete-contacts.py in dry-run mode\<close>

lemma quiet_for_loop_keep:
  assumes "\<And>x s. quiet_partial (body x s)"
  shows "quiet_partial (for_loop_keep xs body s)"
proof (induction xs arbitrary: s)
  case Nil
  show ?case by (simp add: quiet_partial_def)
next
  case (Cons x xs)
  show ?case
    unfolding quiet_partial_def
  proof
    fix w
    obtain e s' w' where step: "body x s w = ((e, s'), w')" by (metis prod.collapse)
    with assms have w': "mutations w' = mutations w" by (rule quiet_partialD)
    show "mutations (snd (for_loop_keep (x # xs) body s w)) = mutations w"
    proof (cases e)
      case None
      obtain r w2 where rest: "for_loop_keep xs body s' w' = (r, w2)" by (metis prod.collapse)
      with Cons.IH have "mutations w2 = mutations w'" by (rule quiet_partialD)
      with None step rest w' show ?thesis by simp
    next
      case (Some a)
      with step w' show ?thesis by simp
    qed
  qed
qed

lemma quiet_fetch_plan:
  "quiet_partial
     (\<lambda>w2. case incidents_client_get_response_plan R plan_arn w2 of
             (Inl e, w3) \<Rightarrow> ((Some e, found), w3)
           | (Inr engagements, w3) \<Rightarrow> ((None, g engagements), w3))"
  by (simp add: quiet_partial_def client_defs remote_call_apply mutations_def split: sum.splits)

lemma quiet_plans_of_page: "quiet_partial (plans_of_page R contact_arn page response_plans)"
proof (cases page)
  case (Inl e)
  then show ?thesis by (simp add: plans_of_page_def quiet_partial_def mutations_def)
next
  case (Inr summaries)
  have loop: "quiet_partial
     (for_loop_keep summaries
       (\<lambda>plan_summary found w2.
          case incidents_client_get_response_plan R (summary_arn plan_summary) w2 of
            (Inl e, w3) \<Rightarrow> ((Some e, found), w3)
          | (Inr engagements, w3) \<Rightarrow>
              ((None, if contact_arn \<in> set engagements
                      then found @ [summary_name plan_summary] else found), w3))
       response_plans)"
    by (rule quiet_for_loop_keep) (rule quiet_fetch_plan)
  show ?thesis
    unfolding quiet_partial_def
  proof
    fix w :: world
    let ?w1 = "w\<lparr>events := events w @ [Call ListResponsePlans]\<rparr>"
    have "mutations ?w1 = mutations w" by (simp add: mutations_def)
    moreover from loop have "mutations (snd (for_loop_keep summaries
       (\<lambda>plan_summary found w2.
          case incidents_client_get_response_plan R (summary_arn plan_summary) w2 of
            (Inl e, w3) \<Rightarrow> ((Some e, found), w3)
          | (Inr engagements, w3) \<Rightarrow>
              ((None, if contact_arn \<in> set engagements
                      then found @ [summary_name plan_summary] else found), w3))
       response_plans ?w1)) = mutations ?w1"
      by (simp add: quiet_partial_def)
    ultimately show "mutations (snd (plans_of_page R contact_arn page response_plans w)) = mutations w"
      using Inr by (simp add: plans_of_page_def Let_def)
  qed
qed

lemma quiet_get_response_plans_using_contact:
  "quiet (get_response_plans_using_contact R h contact_arn)"
  unfolding quiet_def
proof
  fix w
  obtain e found w' where run: "for_loop_keep (ssm_incidents_list_response_plans R (events w))
      (plans_of_page R contact_arn) [] w = ((e, found), w')"
    by (metis prod.collapse)
  have "quiet_partial (for_loop_keep (ssm_incidents_list_response_plans R (events w))
      (plans_of_page R contact_arn) [])"
    by (rule quiet_for_loop_keep) (rule quiet_plans_of_page)
  from this run have w': "mutations w' = mutations w" by (rule quiet_partialD)
  show "mutations (snd (get_response_plans_using_contact R h contact_arn w)) = mutations w"
    using run w'
    by (simp add: get_response_plans_using_contact_def run_simps mutations_def
        split: option.splits exn.splits)
qed

lemma quiet_get_contact_details: "quiet (get_contact_details R h a)"
  unfolding get_contact_details_def by (intro quiet_intros)

lemma quiet_get_contact_channels: "quiet (get_contact_channels R contact_arn)"
  unfolding get_contact_channels_def by (intro quiet_intros)

lemma quiet_remove_contact_from_response_plan:
  "dry_run h \<Longrightarrow> quiet (remove_contact_from_response_plan R h plan_name contact_arn)"
  by (simp add: remove_contact_from_response_plan_def quiet_log)

lemma quiet_delete_contact_channel:
  "dry_run h \<Longrightarrow> quiet (delete_contact_channel R h channel_arn channel_info)"
  by (simp add: delete_contact_channel_def quiet_log)

lemma quiet_delete_contact: "dry_run h \<Longrightarrow> quiet (delete_contact cfg R h a)"
  unfolding delete_contact_def
  by (intro quiet_intros quiet_get_contact_details quiet_get_contact_channels
        quiet_get_response_plans_using_contact quiet_remove_contact_from_response_plan
        quiet_delete_contact_channel)
     simp_all

lemma quiet_print_summary_delete: "quiet (print_summary_delete R h contacts_processed)"
  unfolding print_summary_delete_def Let_def by (intro quiet_intros)

lemma quiet_confirm_deletion: "quiet (confirm_deletion cfg R contacts)"
  unfolding confirm_deletion_def by (intro quiet_intros quiet_case_sum)

lemma quiet_record_deletion: "dry_run h \<Longrightarrow> quiet (record_deletion cfg R h a acc)"
  unfolding record_deletion_def by (intro quiet_intros quiet_delete_contact)

lemma quiet_run_deletions: "dry_run h \<Longrightarrow> quiet (run_deletions cfg R h contacts)"
  unfolding run_deletions_def process_deletions_def
  by (intro quiet_intros quiet_record_deletion quiet_print_summary_delete)

lemma quiet_main_delete: "del_dry_run cfg \<Longrightarrow> quiet (main_delete cfg R contacts)"
  unfolding main_delete_def Let_def
  by (intro quiet_intros quiet_confirm_deletion quiet_run_deletions)
     (simp add: new_helper_def)

lemma script_delete_mutations:
  "quiet (main_delete cfg R contacts) \<Longrightarrow>
     mutations (snd (script_delete cfg R contacts w)) = mutations w"
  by (cases "main_delete cfg R contacts w")
     (auto simp: script_delete_def split: sum.splits dest: quietD)

lemma live_deletion:
  "mutations (snd (script_delete DELETE_CONFIG populated_service CONTACTS_TO_DELETE
                     initial_world)) =
     [Call (UpdateResponsePlan ''arn:aws:ssm-incidents::123456789012:response-plan/high'' []),
      Call (DeleteContactChannel ''arn:channel/asdasd-email''),
      Call (DeleteContact ''arn:aws:ssm-contacts:us-east-1:123456789012:contact/asdasd'')]"
  by (simp add: delete_defs io_simps client_defs Let_def DELETE_CONFIG_def
      get_response_plans_using_contact_def plans_of_page_def
      remove_contact_from_response_plan_def delete_contact_channel_def
      CONTACTS_TO_DELETE_def populated_service_def empty_service_def initial_world_def
      mutations_def)

section \<open>The loops of the two \<^verbatim>\<open>main\<close> functions\<close>

text \<open>
  The body of each loop catches every exception, so each loop runs to the end of its list:
  a failure on one item does not stop the items after it.
\<close>

lemma for_loop_total:
  assumes "\<And>x s w. \<exists>s' w'. body x s w = (Inr s', w')"
  shows "\<exists>s' w'. for_loop xs body s w = (Inr s', w')"
proof (induction xs arbitrary: s w)
  case Nil
  show ?case by (simp add: return_apply)
next
  case (Cons x xs)
  from assms obtain s1 w1 where "body x s w = (Inr s1, w1)" by blast
  with Cons.IH [of s1 w1] show ?case
    by (simp add: for_loop_Cons_apply del: for_loop.simps)
qed

lemma process_contact_total:
  "\<exists>vars' w'. process_contact cfg R h entry vars w = (Inr vars', w')"
  by (cases entry; cases vars)
     (auto simp: process_contact_def run_simps split: prod.splits sum.splits)

lemma process_response_plan_total:
  "\<exists>success' w'. process_response_plan cfg R h contact_arns entry success w = (Inr success', w')"
  by (cases entry)
     (auto simp: process_response_plan_def run_simps split: prod.splits sum.splits)

lemma process_contact_definitions_total:
  "\<exists>vars w'. process_contact_definitions cfg R h defs w = (Inr vars, w')"
  unfolding process_contact_definitions_def
  by (rule for_loop_total) (rule process_contact_total)

lemma process_response_plans_total:
  "\<exists>success w'. process_response_plans cfg R h plans contact_arns success0 w = (Inr success, w')"
  unfolding process_response_plans_def
  by (rule for_loop_total) (rule process_response_plan_total)

lemma process_deletions_total:
  "\<exists>contacts_processed w'. process_deletions cfg R h contacts w = (Inr contacts_processed, w')"
  unfolding process_deletions_def
  by (rule for_loop_total) (use record_deletion_result in blast)

lemma script_delete_status_0:
  "fst (script_delete cfg R contacts w) = 0 \<longleftrightarrow> fst (main_delete cfg R contacts w) = Inr True"
  by (cases "main_delete cfg R contacts w")
     (auto simp: script_delete_def split: sum.splits)

lemmas main_update_defs =
  script_update_def main_update_def process_configuration_def process_contact_definitions_def
  process_contact_def process_response_plans_def process_response_plan_def
  update_response_plan_def get_response_plan_arn_def validate_configuration_def
  contact_error_def channel_error_def plan_error_def print_summary_update_def
  new_helper_def clear_account_id_apply region_text_def str_bool_def

section \<open>Claims about the engagement-plan builder\<close>



text \<open>
  C2. On the channel list with delays 0, 0, 15, 15, 10 (whatever the references and types) the
  builder returns exactly three stages, in this order: duration 10 with the two delay-0
  channels, duration 5 with the delay-10 channel, duration 1 with the two delay-15 channels.
  No stage without targets comes first, the smallest delay being 0.
\<close>

theorem C2_example_stages:
  "build_plan_stages
     [\<lparr>ci_arn = a1, ci_engagement_time = 0, ci_type = t1\<rparr>,
      \<lparr>ci_arn = a2, ci_engagement_time = 0, ci_type = t2\<rparr>,
      \<lparr>ci_arn = a3, ci_engagement_time = 15, ci_type = t3\<rparr>,
      \<lparr>ci_arn = a4, ci_engagement_time = 15, ci_type = t4\<rparr>,
      \<lparr>ci_arn = a5, ci_engagement_time = 10, ci_type = t5\<rparr>] =
   [\<lparr>DurationInMinutes = 10,
      Targets = [\<lparr>ContactChannelId = a1, RetryIntervalInMinutes = 2\<rparr>,
                 \<lparr>ContactChannelId = a2, RetryIntervalInMinutes = 2\<rparr>]\<rparr>,
    \<lparr>DurationInMinutes = 5,
      Targets = [\<lparr>ContactChannelId = a5, RetryIntervalInMinutes = 2\<rparr>]\<rparr>,
    \<lparr>DurationInMinutes = 1,
      Targets = [\<lparr>ContactChannelId = a3, RetryIntervalInMinutes = 2\<rparr>,
                 \<lparr>ContactChannelId = a4, RetryIntervalInMinutes = 2\<rparr>]\<rparr>]"
  by (simp add: build_plan_stages_def sorted_engagement_times_def engagement_groups_def
      add_to_group_def initial_wait_stage_def stage_at_def channels_at_this_time_def
      target_of_def Let_def upt_rec)

text \<open>
  C3. For every non-empty channel list the plan is non-empty and its last stage has
  duration exactly 1, hence at least 1, whatever the delays.
\<close>

theorem C3_last_stage_duration_one:
  assumes "info \<noteq> []"
  shows "build_plan_stages info \<noteq> [] \<and>
         DurationInMinutes (last (build_plan_stages info)) = 1 \<and>
         1 \<le> DurationInMinutes (last (build_plan_stages info))"
proof -
  let ?ts = "sorted_engagement_times info"
  from assms have ne: "?ts \<noteq> []" by (rule times_nonempty)
  then have "[0..<length ?ts] = [0..<length ?ts - 1] @ [length ?ts - 1]"
    by (cases "length ?ts") simp_all
  then have "build_plan_stages info =
      (initial_wait_stage ?ts @ map (stage_at (engagement_groups info) ?ts) [0..<length ?ts - 1])
        @ [stage_at (engagement_groups info) ?ts (length ?ts - 1)]"
    by (simp add: build_plan_stages_def Let_def)
  then have "build_plan_stages info \<noteq> []"
    and "last (build_plan_stages info) = stage_at (engagement_groups info) ?ts (length ?ts - 1)"
    by simp_all
  then show ?thesis using ne by (simp add: stage_at_duration)
qed

theorem C3_witness:
  "[\<lparr>ci_arn = ''arn:email'', ci_engagement_time = 10, ci_type = ''EMAIL''\<rparr>,
    \<lparr>ci_arn = ''arn:sms'', ci_engagement_time = 15, ci_type = ''SMS''\<rparr>] \<noteq> [] \<and>
   DurationInMinutes (last (build_plan_stages
     [\<lparr>ci_arn = ''arn:email'', ci_engagement_time = 10, ci_type = ''EMAIL''\<rparr>,
      \<lparr>ci_arn = ''arn:sms'', ci_engagement_time = 15, ci_type = ''SMS''\<rparr>])) = 1"
proof -
  let ?info = "[\<lparr>ci_arn = ''arn:email'', ci_engagement_time = 10, ci_type = ''EMAIL''\<rparr>,
                \<lparr>ci_arn = ''arn:sms'', ci_engagement_time = 15, ci_type = ''SMS''\<rparr>]"
  have h: "?info \<noteq> []" by simp
  show ?thesis using h C3_last_stage_duration_one [OF h] by simp
qed

text \<open>
  C4. For every non-empty channel list: if the smallest delay \<open>d\<close> is positive, the first
  stage of the plan has no targets and duration \<open>d\<close>; if the smallest delay is 0, the plan
  has one stage per distinct delay and every stage has targets, so no initial stage
  without targets is emitted.
\<close>

theorem C4_initial_wait_stage:
  assumes "info \<noteq> []"
  shows "(0 < Min (ci_engagement_time ` set info) \<longrightarrow>
            hd (build_plan_stages info) =
              \<lparr>DurationInMinutes = Min (ci_engagement_time ` set info), Targets = []\<rparr>) \<and>
         (Min (ci_engagement_time ` set info) = 0 \<longrightarrow>
            length (build_plan_stages info) = card (ci_engagement_time ` set info) \<and>
            (\<forall>s \<in> set (build_plan_stages info). Targets s \<noteq> []))"
proof -
  let ?ts = "sorted_engagement_times info"
  let ?m = "Min (ci_engagement_time ` set info)"
  from assms have ne: "?ts \<noteq> []" by (rule times_nonempty)
  have m: "?ts ! 0 = ?m" using assms by (rule first_time_Min)
  then have hd: "hd ?ts = ?m" using ne by (simp add: hd_conv_nth)
  have pos: "hd (build_plan_stages info) = \<lparr>DurationInMinutes = ?m, Targets = []\<rparr>" if "0 < ?m"
    using that ne hd
    by (cases ?ts) (simp_all add: build_plan_stages_def Let_def initial_wait_stage_def)
  have zero: "length (build_plan_stages info) = card (ci_engagement_time ` set info) \<and>
      (\<forall>s \<in> set (build_plan_stages info). Targets s \<noteq> [])" if z: "?m = 0"
  proof -
    from z ne hd have init: "initial_wait_stage ?ts = []"
      by (cases ?ts) (simp_all add: initial_wait_stage_def)
    have "card (ci_engagement_time ` set info) = length ?ts"
      using times_distinct [of info] times_set [of info] distinct_card by fastforce
    then have len: "length (build_plan_stages info) = card (ci_engagement_time ` set info)"
      by (simp add: build_plan_stages_length init)
    have "Targets s \<noteq> []" if s: "s \<in> set (build_plan_stages info)" for s
    proof -
      from s init obtain i where i: "i < length ?ts"
        and si: "s = stage_at (engagement_groups info) ?ts i"
        by (auto simp: build_plan_stages_def Let_def)
      from i have "?ts ! i \<in> ci_engagement_time ` set info"
        using times_set [of info] nth_mem by blast
      then obtain c where "c \<in> set info" "ci_engagement_time c = ?ts ! i" by auto
      then have "filter (\<lambda>c. ci_engagement_time c = ?ts ! i) info \<noteq> []"
        by (auto simp: filter_empty_conv)
      then show ?thesis by (simp add: si stage_at_targets)
    qed
    with len show ?thesis by blast
  qed
  from pos zero show ?thesis by blast
qed

theorem C4_witness:
  "[\<lparr>ci_arn = ''arn:email'', ci_engagement_time = 10, ci_type = ''EMAIL''\<rparr>,
    \<lparr>ci_arn = ''arn:sms'', ci_engagement_time = 15, ci_type = ''SMS''\<rparr>] \<noteq> [] \<and>
   0 < Min (ci_engagement_time `
     set [\<lparr>ci_arn = ''arn:email'', ci_engagement_time = 10, ci_type = ''EMAIL''\<rparr>,
          \<lparr>ci_arn = ''arn:sms'', ci_engagement_time = 15, ci_type = ''SMS''\<rparr>]) \<and>
   hd (build_plan_stages
     [\<lparr>ci_arn = ''arn:email'', ci_engagement_time = 10, ci_type = ''EMAIL''\<rparr>,
      \<lparr>ci_arn = ''arn:sms'', ci_engagement_time = 15, ci_type = ''SMS''\<rparr>]) =
     \<lparr>DurationInMinutes = 10, Targets = []\<rparr> \<and>
   [\<lparr>ci_arn = ''arn:email'', ci_engagement_time = 0, ci_type = ''EMAIL''\<rparr>,
    \<lparr>ci_arn = ''arn:sms'', ci_engagement_time = 3, ci_type = ''SMS''\<rparr>] \<noteq> [] \<and>
   Min (ci_engagement_time `
     set [\<lparr>ci_arn = ''arn:email'', ci_engagement_time = 0, ci_type = ''EMAIL''\<rparr>,
          \<lparr>ci_arn = ''arn:sms'', ci_engagement_time = 3, ci_type = ''SMS''\<rparr>]) = 0 \<and>
   list_all (\<lambda>s. Targets s \<noteq> []) (build_plan_stages
       [\<lparr>ci_arn = ''arn:email'', ci_engagement_time = 0, ci_type = ''EMAIL''\<rparr>,
        \<lparr>ci_arn = ''arn:sms'', ci_engagement_time = 3, ci_type = ''SMS''\<rparr>])"
proof -
  let ?a = "[\<lparr>ci_arn = ''arn:email'', ci_engagement_time = 10, ci_type = ''EMAIL''\<rparr>,
             \<lparr>ci_arn = ''arn:sms'', ci_engagement_time = 15, ci_type = ''SMS''\<rparr>]"
  let ?b = "[\<lparr>ci_arn = ''arn:email'', ci_engagement_time = 0, ci_type = ''EMAIL''\<rparr>,
             \<lparr>ci_arn = ''arn:sms'', ci_engagement_time = 3, ci_type = ''SMS''\<rparr>]"
  have a: "?a \<noteq> []" and b: "?b \<noteq> []" by simp_all
  have ma: "Min (ci_engagement_time ` set ?a) = 10" and mb: "Min (ci_engagement_time ` set ?b) = 0"
    by simp_all
  from C4_initial_wait_stage [OF a] ma
  have ra: "hd (build_plan_stages ?a) = \<lparr>DurationInMinutes = 10, Targets = []\<rparr>"
    by simp
  from C4_initial_wait_stage [OF b] mb
  have rb: "\<forall>s \<in> set (build_plan_stages ?b). Targets s \<noteq> []"
    by simp
  from a b ma mb ra rb show ?thesis by (simp add: list_all_iff)
qed

section \<open>Claims about \<^verbatim>\<open>retry_operation\<close>\<close>

text \<open>
  C6, as amended. \<^verbatim>\<open>retry_operation\<close> retries a request on \<^verbatim>\<open>ClientError\<close> only, and
  on every \<^verbatim>\<open>ClientError\<close> alike, whatever its error code. With \<open>n\<close> attempts configured
  and a non-negative delay: when the first \<open>k < n\<close> attempts fail with a \<^verbatim>\<open>ClientError\<close>,
  each has been followed by a sleep of the configured delay and attempt \<open>k + 1\<close> is made;
  if it succeeds its value is returned; if it raises any other exception, that exception
  leaves \<^verbatim>\<open>retry_operation\<close> at once, without a retry; if it raises a \<^verbatim>\<open>ClientError\<close> and
  was the last of the \<open>n\<close> attempts, that final error is raised again. In each case the
  events are exactly the \<open>k + 1\<close> requests with the \<open>k\<close> sleeps between them.
\<close>

theorem C6_retry_ClientError_only:
  assumes n: "retry_attempts cfg = int n" and d: "0 \<le> retry_delay cfg" and k: "k < n"
    and failures: "\<forall>j<k. \<exists>code msg.
        respond (after_attempts (events w) req (retry_delay cfg) j) = Inl (ClientError code msg)"
  shows
    "(\<forall>v. respond (after_attempts (events w) req (retry_delay cfg) k) = Inr v \<longrightarrow>
        fst (retry_operation cfg h (remote_call req respond) w) = Inr (Some v) \<and>
        events (snd (retry_operation cfg h (remote_call req respond) w)) =
          after_attempts (events w) req (retry_delay cfg) k @ [Call req]) \<and>
     (\<forall>msg. respond (after_attempts (events w) req (retry_delay cfg) k) = Inl (OtherException msg) \<longrightarrow>
        fst (retry_operation cfg h (remote_call req respond) w) = Inl (OtherException msg) \<and>
        events (snd (retry_operation cfg h (remote_call req respond) w)) =
          after_attempts (events w) req (retry_delay cfg) k @ [Call req]) \<and>
     (\<forall>code msg. Suc k = n \<longrightarrow>
        respond (after_attempts (events w) req (retry_delay cfg) k) = Inl (ClientError code msg) \<longrightarrow>
        fst (retry_operation cfg h (remote_call req respond) w) = Inl (ClientError code msg) \<and>
        events (snd (retry_operation cfg h (remote_call req respond) w)) =
          after_attempts (events w) req (retry_delay cfg) k @ [Call req])"
proof -
  from n k have le: "0 + int k \<le> retry_attempts cfg - 1" by simp
  from retry_loop_failures [OF failures le d, of h]
  obtain w' where run: "retry_operation cfg h (remote_call req respond) w =
      retry_loop cfg h (remote_call req respond) [int k..retry_attempts cfg - 1] w'"
    and ev: "events w' = after_attempts (events w) req (retry_delay cfg) k"
    by (auto simp: retry_operation_def)
  from le have le': "int k \<le> retry_attempts cfg - 1" by simp
  have final: "retry_operation cfg h (remote_call req respond) w =
     (case respond (events w') of
        Inr v \<Rightarrow> (Inr (Some v), w'\<lparr>events := events w' @ [Call req]\<rparr>)
      | Inl (OtherException msg) \<Rightarrow>
          (Inl (OtherException msg), w'\<lparr>events := events w' @ [Call req]\<rparr>)
      | Inl (ClientError code msg) \<Rightarrow>
          if int k = retry_attempts cfg - 1
          then (Inl (ClientError code msg), w'\<lparr>events := events w' @ [Call req]\<rparr>)
          else retry_loop cfg h (remote_call req respond)
                 (int k # [int k + 1..retry_attempts cfg - 1]) w')"
    by (simp only: run retry_loop_last_step [OF le'])
  show ?thesis
    using n by (auto simp: final ev)
qed

theorem C6_witness:
  "retry_attempts CONFIG = int 3 \<and> 0 \<le> retry_delay CONFIG \<and>
   fst (retry_operation CONFIG example_helper
          (contacts_client_create_contact_channel throttled_service ''arn:contact/dvcong''
             ''D V Cong - EMAIL'' ''EMAIL'' ''dvcong@vinamilk.com.vn'') initial_world) =
     Inl (ClientError ''ConflictException'' ''channel exists'') \<and>
   events (snd (retry_operation CONFIG example_helper
          (contacts_client_create_contact_channel throttled_service ''arn:contact/dvcong''
             ''D V Cong - EMAIL'' ''EMAIL'' ''dvcong@vinamilk.com.vn'') initial_world)) =
     [Call (CreateContactChannel ''arn:contact/dvcong'' ''D V Cong - EMAIL'' ''EMAIL''
              ''dvcong@vinamilk.com.vn''), Sleep 2,
      Call (CreateContactChannel ''arn:contact/dvcong'' ''D V Cong - EMAIL'' ''EMAIL''
              ''dvcong@vinamilk.com.vn''), Sleep 2,
      Call (CreateContactChannel ''arn:contact/dvcong'' ''D V Cong - EMAIL'' ''EMAIL''
              ''dvcong@vinamilk.com.vn'')]"
proof -
  let ?req = "CreateContactChannel ''arn:contact/dvcong'' ''D V Cong - EMAIL'' ''EMAIL''
                ''dvcong@vinamilk.com.vn''"
  let ?respond = "\<lambda>hist. ssm_contacts_create_contact_channel throttled_service hist
                    ''arn:contact/dvcong'' ''D V Cong - EMAIL'' ''EMAIL'' ''dvcong@vinamilk.com.vn''"
  have n: "retry_attempts CONFIG = int 3" and d: "0 \<le> retry_delay CONFIG"
    by (simp_all add: CONFIG_def)
  have k: "(2::nat) < 3" by simp
  have answer: "?respond hist = Inl (ClientError ''ConflictException'' ''channel exists'')" for hist
    by (simp add: throttled_service_def empty_service_def)
  have failures: "\<forall>j<2. \<exists>code msg.
      ?respond (after_attempts (events initial_world) ?req (retry_delay CONFIG) j) =
        Inl (ClientError code msg)"
    by (simp add: answer)
  from C6_retry_ClientError_only [OF n d k failures, of example_helper] answer
  have "fst (retry_operation CONFIG example_helper (remote_call ?req ?respond) initial_world) =
          Inl (ClientError ''ConflictException'' ''channel exists'') \<and>
        events (snd (retry_operation CONFIG example_helper (remote_call ?req ?respond) initial_world)) =
          after_attempts (events initial_world) ?req (retry_delay CONFIG) 2 @ [Call ?req]"
    by simp
  then show ?thesis
    using n d
    by (simp add: contacts_client_create_contact_channel_def after_attempts_def
        initial_world_def CONFIG_def numeral_2_eq_2)
qed

text \<open>
  C6 as stated fails: with three attempts configured, a failure that is not a
  \<^verbatim>\<open>ClientError\<close> (here the endpoint cannot be reached) is not retried; one request is
  sent, no sleep follows, and the exception leaves \<^verbatim>\<open>retry_operation\<close>.
\<close>

theorem C6_counterexample:
  "retry_attempts CONFIG = 3 \<and>
   retry_operation CONFIG example_helper
     (contacts_client_create_contact unreachable_service ''lmhung'' ''L M Hung'') initial_world =
     (Inl (OtherException ''Could not connect to the endpoint URL''),
      initial_world\<lparr>events := [Call (CreateContact ''lmhung'' ''L M Hung'')]\<rparr>)"
  by (simp add: CONFIG_def retry_operation_def upto_step run_simps client_defs
      unreachable_service_def empty_service_def initial_world_def)

section \<open>Claims about \<^verbatim>\<open>create_contact_channel\<close>\<close>

text \<open>
  C5, as amended. Outside dry-run mode, when the retried channel-creation request ends in a
  \<^verbatim>\<open>ClientError\<close>: if its code is \<^verbatim>\<open>ConflictException\<close>, \<^verbatim>\<open>create_contact_channel\<close> lists
  the contact's channels afresh and returns, without raising, what the listing gives for
  the channel's type: the reference of a listed channel of that type when the listing
  succeeds and has one, \<^verbatim>\<open>None\<close> when the listing succeeds without a channel of that type
  or fails with a \<^verbatim>\<open>ClientError\<close> (an exception of another class from the listing is
  raised); if the code is any other, the error is raised again, a failure for that contact.
\<close>

theorem C5_conflict_returns_listed_reference:
  assumes "\<not> dry_run h"
    and "retry_operation cfg h
           (contacts_client_create_contact_channel R contact_arn
              (contact_name @ '' - '' @ channel_type cc) (channel_type cc) (address cc)) w =
         (Inl (ClientError code msg), w1)"
  shows
    "(code = ''ConflictException'' \<longrightarrow>
        (\<forall>chans. ssm_contacts_list_contact_channels R (events w1) contact_arn = Inr chans \<longrightarrow>
           fst (create_contact_channel cfg R h contact_arn cc contact_name w) =
             Inr (map_of (channels_by_type chans) (channel_type cc)) \<and>
           (map_of (channels_by_type chans) (channel_type cc) = None \<longleftrightarrow>
              channel_type cc \<notin> ChannelType ` set chans) \<and>
           (\<forall>a. map_of (channels_by_type chans) (channel_type cc) = Some a \<longrightarrow>
              (\<exists>ch \<in> set chans. ChannelType ch = channel_type cc \<and> ContactChannelArn ch = a))) \<and>
        (\<forall>c m. ssm_contacts_list_contact_channels R (events w1) contact_arn =
                  Inl (ClientError c m) \<longrightarrow>
           fst (create_contact_channel cfg R h contact_arn cc contact_name w) = Inr None) \<and>
        (\<forall>m. ssm_contacts_list_contact_channels R (events w1) contact_arn =
                Inl (OtherException m) \<longrightarrow>
           fst (create_contact_channel cfg R h contact_arn cc contact_name w) =
             Inl (OtherException m))) \<and>
     (code \<noteq> ''ConflictException'' \<longrightarrow>
        fst (create_contact_channel cfg R h contact_arn cc contact_name w) =
          Inl (ClientError code msg))"
  using create_contact_channel_ClientError [OF assms]
  by (auto simp: channels_by_type_None dest: channels_by_type_Some)

theorem C5_witness:
  "\<not> dry_run example_helper \<and>
   fst (retry_operation CONFIG example_helper
          (contacts_client_create_contact_channel conflict_service ''arn:contact/dvcong''
             ''D V Cong - EMAIL'' ''EMAIL'' ''dvcong@vinamilk.com.vn'') initial_world) =
     Inl (ClientError ''ConflictException'' ''channel exists'') \<and>
   fst (create_contact_channel CONFIG conflict_service example_helper ''arn:contact/dvcong''
          (channel ''EMAIL'' ''dvcong@vinamilk.com.vn'' 10) ''D V Cong'' initial_world) =
     Inr (Some ''arn:channel/existing-email'')"
proof -
  let ?cc = "channel ''EMAIL'' ''dvcong@vinamilk.com.vn'' 10"
  let ?retry = "retry_operation CONFIG example_helper
          (contacts_client_create_contact_channel conflict_service ''arn:contact/dvcong''
             (''D V Cong'' @ '' - '' @ channel_type ?cc) (channel_type ?cc) (address ?cc))
          initial_world"
  have nd: "\<not> dry_run example_helper" by (simp add: example_helper_def)
  have cc: "channel_type ?cc = ''EMAIL''" "address ?cc = ''dvcong@vinamilk.com.vn''"
    by (simp_all add: channel_def)
  have r: "fst ?retry = Inl (ClientError ''ConflictException'' ''channel exists'')"
    unfolding cc by (rule retry_conflict_service)
  then have run: "?retry = (Inl (ClientError ''ConflictException'' ''channel exists''), snd ?retry)"
    by (metis prod.collapse)
  have listing: "ssm_contacts_list_contact_channels conflict_service (events (snd ?retry))
      ''arn:contact/dvcong'' =
        Inr [\<lparr>ContactChannelArn = ''arn:channel/existing-email'',
              ChannelName = ''D V Cong - EMAIL'', ChannelType = ''EMAIL''\<rparr>]"
    by (simp add: conflict_service_def)
  from C5_conflict_returns_listed_reference [OF nd run] listing
  have "fst (create_contact_channel CONFIG conflict_service example_helper ''arn:contact/dvcong''
          ?cc ''D V Cong'' initial_world) =
        Inr (map_of (channels_by_type
          [\<lparr>ContactChannelArn = ''arn:channel/existing-email'',
            ChannelName = ''D V Cong - EMAIL'', ChannelType = ''EMAIL''\<rparr>]) (channel_type ?cc))"
    by simp
  then show ?thesis
    using nd r by (simp add: cc channels_by_type_def)
qed

text \<open>
  C5 as stated fails: the EMAIL channel exists (its creation ends in a conflict), the
  fresh listing is throttled, and \<^verbatim>\<open>create_contact_channel\<close> returns \<^verbatim>\<open>None\<close> instead of
  the existing channel's reference.
\<close>

theorem C5_counterexample:
  "fst (retry_operation CONFIG example_helper
          (contacts_client_create_contact_channel throttled_service ''arn:contact/dvcong''
             ''D V Cong - EMAIL'' ''EMAIL'' ''dvcong@vinamilk.com.vn'') initial_world) =
     Inl (ClientError ''ConflictException'' ''channel exists'') \<and>
   fst (create_contact_channel CONFIG throttled_service example_helper ''arn:contact/dvcong''
          (channel ''EMAIL'' ''dvcong@vinamilk.com.vn'' 10) ''D V Cong'' initial_world) = Inr None"
  by (simp add: CONFIG_def retry_operation_def upto_step run_simps client_defs sleep_def
      create_contact_channel_def get_existing_contact_channels_def channel_def Let_def
      throttled_service_def empty_service_def initial_world_def example_helper_def)



section \<open>Claims about deleting a contact that does not exist\<close>

text \<open>
  C8, as amended. When \<^verbatim>\<open>delete_contact\<close> is invoked for an alias whose remote lookup
  reports not-found, it logs the warning \<open>Contact not found: alias\<close>, sends no further
  request and returns \<^verbatim>\<open>False\<close> without raising. That value is the failure value of the
  work item: when the service reports not-found for the alias at every lookup and the
  alias is in the work list, the script ends with exit status 1, whatever the other items
  do.
\<close>

theorem C8_not_found_returns_False_and_fails_the_item:
  "(\<forall>contact_arn w1 msg.
      get_contact_arn R h alias w = (Inr contact_arn, w1) \<longrightarrow>
      ssm_contacts_get_contact R (events w1) contact_arn =
        Inl (ClientError ''ResourceNotFoundException'' msg) \<longrightarrow>
      delete_contact cfg R h alias w =
        (Inr False,
         w1\<lparr>events := events w1 @ [Call (GetContact contact_arn)],
            console := console w1 @ [Log WARN (''Contact not found: '' @ alias)]\<rparr>)) \<and>
   ((\<forall>hist account. \<exists>msg.
       ssm_contacts_get_contact R hist
         (''arn:aws:ssm-contacts:'' @
          region_or_default R (new_helper (del_dry_run cfg) (del_verbose cfg) (del_aws_region cfg)) @
          '':'' @ account @ '':contact/'' @ alias) =
       Inl (ClientError ''ResourceNotFoundException'' msg)) \<longrightarrow>
    alias \<in> set contacts \<longrightarrow>
    fst (script_delete cfg R contacts w0) = 1)"
  using delete_contact_not_found main_delete_not_found script_delete_status
  by blast

theorem C8_witness:
  "get_contact_arn empty_service example_helper ''asdasd'' initial_world =
     (Inr ''arn:aws:ssm-contacts:us-east-1:123456789012:contact/asdasd'',
      \<lparr>events = [Call GetCallerIdentity], console = [], account_id = Some ''123456789012''\<rparr>) \<and>
   delete_contact DELETE_CONFIG empty_service example_helper ''asdasd'' initial_world =
     (Inr False,
      \<lparr>events = [Call GetCallerIdentity,
                 Call (GetContact ''arn:aws:ssm-contacts:us-east-1:123456789012:contact/asdasd'')],
       console = [Log WARN ''Contact not found: asdasd''],
       account_id = Some ''123456789012''\<rparr>) \<and>
   ''asdasd'' \<in> set CONTACTS_TO_DELETE \<and>
   fst (script_delete DELETE_CONFIG empty_service CONTACTS_TO_DELETE initial_world) = 1"
proof -
  let ?arn = "''arn:aws:ssm-contacts:us-east-1:123456789012:contact/asdasd''"
  let ?w1 = "\<lparr>events = [Call GetCallerIdentity], console = [],
              account_id = Some ''123456789012''\<rparr>"
  have arn: "get_contact_arn empty_service example_helper ''asdasd'' initial_world = (Inr ?arn, ?w1)"
    by (simp add: get_contact_arn_def get_account_id_def region_or_default_def run_simps
        client_defs empty_service_def example_helper_def initial_world_def)
  have lookup: "ssm_contacts_get_contact empty_service hist a =
      Inl (ClientError ''ResourceNotFoundException'' ''contact not found'')" for hist a
    by (simp add: empty_service_def)
  have listed: "''asdasd'' \<in> set CONTACTS_TO_DELETE"
    by (simp add: CONTACTS_TO_DELETE_def)
  note claim = C8_not_found_returns_False_and_fails_the_item
    [of empty_service example_helper "''asdasd''" initial_world DELETE_CONFIG
        CONTACTS_TO_DELETE initial_world]
  from claim arn lookup
  have one: "delete_contact DELETE_CONFIG empty_service example_helper ''asdasd'' initial_world =
      (Inr False,
       ?w1\<lparr>events := events ?w1 @ [Call (GetContact ?arn)],
            console := console ?w1 @ [Log WARN (''Contact not found: '' @ ''asdasd'')]\<rparr>)"
    by blast
  from claim lookup listed
  have two: "fst (script_delete DELETE_CONFIG empty_service CONTACTS_TO_DELETE initial_world) = 1"
    by blast
  from arn one listed two show ?thesis by simp
qed

text \<open>
  C8 as stated fails: on the script's own work list, with a service that does not know the
  contact, the not-found alias is counted and listed as a failed deletion and the exit
  status is 1; it is not treated as mere absence.
\<close>

theorem C8_counterexample:
  "fst (script_delete DELETE_CONFIG empty_service CONTACTS_TO_DELETE initial_world) = 1 \<and>
   console (snd (script_delete DELETE_CONFIG empty_service CONTACTS_TO_DELETE initial_world)) =
     [Print ''AWS Incident Manager - Contact Deletion Script'',
      Print ''Version: 1.1'',
      Log INFO ''AWS clients initialized'',
      Log INFO (newline @ ''Starting contact deletion process...''),
      Log WARN ''Contact not found: asdasd'',
      Print (newline @ rule_line),
      Print ''DELETION SUMMARY'',
      Print rule_line,
      Print ''Total contacts processed: 1'',
      Print ''  * Deleted: 0'',
      Print ''  * Failed: 1'',
      Print (newline @ ''Failed deletions:''),
      Print ''  * asdasd'',
      Print (newline @ ''Configuration:''),
      Print ''  * Mode: LIVE DELETION'',
      Print ''  * AWS Region: default'',
      Print ''  * AWS Account: 123456789012'',
      Print rule_line]"
  by (simp add: delete_defs io_simps client_defs Let_def DELETE_CONFIG_def
      CONTACTS_TO_DELETE_def empty_service_def initial_world_def)

section \<open>Claims about dry-run mode\<close>

text \<open>
  C9. When the helper's \<^verbatim>\<open>dry_run\<close> flag is true, none of the operations of the two helper
  classes that can mutate remote state sends a mutating request (create contact, create
  contact channel, update contact plan, update response plan, delete contact channel,
  delete contact), from whatever state it runs and whatever the service answers: the
  mutating requests sent so far stay the same. When \<^verbatim>\<open>CONFIG["dry_run"]\<close> is true the same
  holds of a whole run of either script.
\<close>

theorem C9_dry_run_sends_no_mutating_request:
  "(dry_run h \<longrightarrow>
      mutations (snd (contact_exists R h alias w)) = mutations w \<and>
      mutations (snd (get_existing_contact_channels R h contact_arn w)) = mutations w \<and>
      mutations (snd (create_contact_channel cfg R h contact_arn cc contact_name w)) = mutations w \<and>
      mutations (snd (create_or_update_contact cfg R h alias details w)) = mutations w \<and>
      mutations (snd (update_response_plan cfg R h plan_name plan contact_arns w)) = mutations w \<and>
      mutations (snd (remove_contact_from_response_plan R h plan_name contact_arn w)) = mutations w \<and>
      mutations (snd (delete_contact_channel R h channel_arn entry w)) = mutations w \<and>
      mutations (snd (delete_contact dcfg R h alias w)) = mutations w) \<and>
   (cfg_dry_run cfg \<longrightarrow>
      mutations (snd (script_update cfg R defs plans w)) = mutations w) \<and>
   (del_dry_run dcfg \<longrightarrow>
      mutations (snd (script_delete dcfg R contacts w)) = mutations w)"
proof (intro conjI impI)
  assume dry: "dry_run h"
  show "mutations (snd (contact_exists R h alias w)) = mutations w"
    using quiet_contact_exists [OF dry] by (simp add: quiet_def)
  show "mutations (snd (get_existing_contact_channels R h contact_arn w)) = mutations w"
    using quiet_get_existing_contact_channels [OF dry] by (simp add: quiet_def)
  show "mutations (snd (create_contact_channel cfg R h contact_arn cc contact_name w)) = mutations w"
    using quiet_create_contact_channel [OF dry] by (simp add: quiet_def)
  show "mutations (snd (create_or_update_contact cfg R h alias details w)) = mutations w"
    using quiet_create_or_update_contact [OF dry] by (simp add: quiet_def)
  show "mutations (snd (update_response_plan cfg R h plan_name plan contact_arns w)) = mutations w"
    using quiet_update_response_plan [OF dry] by (simp add: quiet_def)
  show "mutations (snd (remove_contact_from_response_plan R h plan_name contact_arn w)) = mutations w"
    using quiet_remove_contact_from_response_plan [OF dry] by (simp add: quiet_def)
  show "mutations (snd (delete_contact_channel R h channel_arn entry w)) = mutations w"
    using quiet_delete_contact_channel [OF dry] by (simp add: quiet_def)
  show "mutations (snd (delete_contact dcfg R h alias w)) = mutations w"
    using quiet_delete_contact [OF dry] by (simp add: quiet_def)
next
  assume "cfg_dry_run cfg"
  then show "mutations (snd (script_update cfg R defs plans w)) = mutations w"
    by (intro script_update_mutations quiet_main_update)
next
  assume "del_dry_run dcfg"
  then show "mutations (snd (script_delete dcfg R contacts w)) = mutations w"
    by (intro script_delete_mutations quiet_main_delete)
qed

theorem C9_witness:
  "dry_run dry_helper \<and>
   mutations (snd (create_or_update_contact CONFIG empty_service dry_helper ''dvcong'' dvcong
                     initial_world)) = [] \<and>
   cfg_dry_run (CONFIG\<lparr>cfg_dry_run := True\<rparr>) \<and>
   mutations (snd (script_update (CONFIG\<lparr>cfg_dry_run := True\<rparr>) empty_service
                     CONTACTS_DEFINITION RESPONSE_PLANS_TO_UPDATE initial_world)) = [] \<and>
   del_dry_run (DELETE_CONFIG\<lparr>del_dry_run := True\<rparr>) \<and>
   mutations (snd (script_delete (DELETE_CONFIG\<lparr>del_dry_run := True\<rparr>) populated_service
                     CONTACTS_TO_DELETE initial_world)) = [] \<and>
   mutations (snd (script_delete DELETE_CONFIG populated_service CONTACTS_TO_DELETE
                     initial_world)) =
     [Call (UpdateResponsePlan ''arn:aws:ssm-incidents::123456789012:response-plan/high'' []),
      Call (DeleteContactChannel ''arn:channel/asdasd-email''),
      Call (DeleteContact ''arn:aws:ssm-contacts:us-east-1:123456789012:contact/asdasd'')]"
proof -
  have h: "dry_run dry_helper" by (simp add: dry_helper_def)
  have c: "cfg_dry_run (CONFIG\<lparr>cfg_dry_run := True\<rparr>)" by simp
  have d: "del_dry_run (DELETE_CONFIG\<lparr>del_dry_run := True\<rparr>)" by simp
  have start: "mutations initial_world = []" by (simp add: mutations_def initial_world_def)
  note claim = C9_dry_run_sends_no_mutating_request
  from claim [of dry_helper empty_service "''dvcong''" initial_world _ CONFIG _ _ dvcong] h start
  have one: "mutations (snd (create_or_update_contact CONFIG empty_service dry_helper ''dvcong''
      dvcong initial_world)) = []"
    by simp
  from claim [where cfg = "CONFIG\<lparr>cfg_dry_run := True\<rparr>" and R = empty_service
      and defs = CONTACTS_DEFINITION and plans = RESPONSE_PLANS_TO_UPDATE and w = initial_world]
    c start
  have two: "mutations (snd (script_update (CONFIG\<lparr>cfg_dry_run := True\<rparr>) empty_service
      CONTACTS_DEFINITION RESPONSE_PLANS_TO_UPDATE initial_world)) = []"
    by simp
  from claim [where dcfg = "DELETE_CONFIG\<lparr>del_dry_run := True\<rparr>" and R = populated_service
      and contacts = CONTACTS_TO_DELETE and w = initial_world]
    d start
  have three: "mutations (snd (script_delete (DELETE_CONFIG\<lparr>del_dry_run := True\<rparr>)
      populated_service CONTACTS_TO_DELETE initial_world)) = []"
    by simp
  from h c d one two three live_deletion show ?thesis by simp
qed

section \<open>Claims about the exit status\<close>

text \<open>
  C7. The claim asks for exit status 1 whenever an item of the work list failed.
  im-delete-contacts.py turns the value that \<^verbatim>\<open>main\<close> returns into the exit status
  (\<open>script_delete_status_0\<close>); im-update1.py does not: run on the script's own
  configuration against a service that denies reading contacts, every one of the four
  contacts is attempted and fails, \<^verbatim>\<open>main\<close> returns \<^verbatim>\<open>False\<close>, and the exit status of
  the process is 0; the printed summary names no failed contact.
\<close>

theorem C7_update_script_exits_0_after_failures:
  "fst (main_update CONFIG access_denied_service CONTACTS_DEFINITION RESPONSE_PLANS_TO_UPDATE
          initial_world) = Inr False \<and>
   fst (script_update CONFIG access_denied_service CONTACTS_DEFINITION RESPONSE_PLANS_TO_UPDATE
          initial_world) = 0 \<and>
   events (snd (script_update CONFIG access_denied_service CONTACTS_DEFINITION
          RESPONSE_PLANS_TO_UPDATE initial_world)) =
     [Call GetCallerIdentity,
      Call (GetContact ''arn:aws:ssm-contacts:us-east-1:123456789012:contact/lmhung''),
      Call (GetContact ''arn:aws:ssm-contacts:us-east-1:123456789012:contact/dnkhanh''),
      Call (GetContact ''arn:aws:ssm-contacts:us-east-1:123456789012:contact/ntquy''),
      Call (GetContact ''arn:aws:ssm-contacts:us-east-1:123456789012:contact/dvcong'')] \<and>
   printed (snd (script_update CONFIG access_denied_service CONTACTS_DEFINITION
          RESPONSE_PLANS_TO_UPDATE initial_world)) =
     [''Starting AWS Incident Manager Configuration Script...'',
      newline @ rule_line,
      ''EXECUTION SUMMARY'',
      rule_line,
      ''Contacts processed: 0'',
      newline @ ''Response plans to update: 2'',
      '' * vnm-data-prod-aws-health-crictical-response - 2 contact(s)'',
      '' * vnm-data-prod-aws-health-high-response - 3 contact(s)'',
      newline @ ''Configuration:'',
      '' * Dry run: False'',
      '' * AWS Region: default'',
      '' * AWS Account: 123456789012'',
      rule_line]"
  by (simp add: main_update_defs update_defs io_simps client_defs Let_def CONFIG_def
      CONTACTS_DEFINITION_def RESPONSE_PLANS_TO_UPDATE_def channel_def printed_def
      access_denied_service_def empty_service_def initial_world_def)

end
